theory Spec2Isabelle
  imports Complex_Main "HOL-Library.Multiset" "HOL-Library.Char_ord" "HOL-Library.List_Lexorder"
begin

section \<open>Cells, columns and tables\<close>

text \<open>
  The analytic functions work on a pandas DataFrame. A cell is a Python object: a missing
  value (NaN or None; every operation modelled here treats the two alike), an integer, a
  float (modelled by the real number it denotes, so rounding is left out), or a text. A
  text is a list of characters, each a code point below 256. A column carries its dtype: \<open>IntCol\<close> is int64 (no
  missing value can occur), \<open>FloatCol\<close> is float64 (\<open>None\<close> is NaN) and \<open>ObjCol\<close> is the
  object dtype, which holds any mixture of cells. The dtype belongs to the column, not to
  its current cells: selecting rows never changes it.
\<close>

datatype pyobj = NA | PInt int | PFloat real | PStr string

datatype column = IntCol "int list" | FloatCol "real option list" | ObjCol "pyobj list"

text \<open>The Python objects a column yields, one per row.\<close>

fun cells :: "column \<Rightarrow> pyobj list" where
  "cells (IntCol xs) = map PInt xs"
| "cells (FloatCol xs) = map (\<lambda>x. case x of None \<Rightarrow> NA | Some r \<Rightarrow> PFloat r) xs"
| "cells (ObjCol xs) = xs"

text \<open>
  A table has a row index (the labels of its rows, kept by every row selection) and named
  columns in display order, each with one cell per row.
\<close>

record table =
  idx :: "nat list"
  cols :: "(string \<times> column) list"

definition columns :: "table \<Rightarrow> string list" where
  "columns df = map fst (cols df)"

definition nrows :: "table \<Rightarrow> nat" where
  "nrows df = length (idx df)"

text \<open>The name of the dtype of a column, and \<open>df[column]\<close> for a column that is present.\<close>

definition dtype :: "column \<Rightarrow> string" where
  "dtype c = (case c of IntCol xs \<Rightarrow> ''int64'' | FloatCol xs \<Rightarrow> ''float64'' | ObjCol xs \<Rightarrow> ''object'')"

definition getitem :: "table \<Rightarrow> string \<Rightarrow> column option" where
  "getitem df column = map_of (cols df) column"

text \<open>The exceptions that the modelled code raises, as values.\<close>

datatype error =
    KeyError string "string list"
  | LabelsNotInIndex "string list"
  | ValueError string
  | TypeError
  | NameError string
  | EOFError
  | DivisionByZero

section \<open>Python equality, text and order\<close>

text \<open>
  \<open>==\<close> on cells that are not missing, as the hash table of \<open>value_counts\<close> uses it:
  numbers are equal when their values are, and a text equals the identical text only.
  Missing cells never reach it: they are dropped before the counting.
\<close>

fun py_eq :: "pyobj \<Rightarrow> pyobj \<Rightarrow> bool" where
  "py_eq (PInt i) (PInt j) = (i = j)"
| "py_eq (PInt i) (PFloat r) = (of_int i = r)"
| "py_eq (PFloat r) (PInt i) = (r = of_int i)"
| "py_eq (PFloat r) (PFloat s) = (r = s)"
| "py_eq (PStr s) (PStr t) = (s = t)"
| "py_eq _ _ = False"

text \<open>\<open>str\<close> of an integer: its decimal digits, with a minus sign when negative.\<close>

definition digit_char :: "nat \<Rightarrow> char" where
  "digit_char d = ''0123456789'' ! d"

fun str_nat :: "nat \<Rightarrow> string" where
  "str_nat n = (if n < 10 then [digit_char n] else str_nat (n div 10) @ [digit_char (n mod 10)])"

declare str_nat.simps [simp del]

definition str_int :: "int \<Rightarrow> string" where
  "str_int i = (if i < 0 then CHR ''-'' # str_nat (nat (- i)) else str_nat (nat i))"

text \<open>
  \<open>str\<close> of a cell, as \<open>astype(str)\<close> renders it. The text of a float (its shortest
  round-trip decimal form) is a property of the binary representation and is taken as the
  parameter \<open>fstr\<close>.
\<close>

fun py_str :: "(real \<Rightarrow> string) \<Rightarrow> pyobj \<Rightarrow> string" where
  "py_str fstr NA = ''nan''"
| "py_str fstr (PInt i) = str_int i"
| "py_str fstr (PFloat r) = fstr r"
| "py_str fstr (PStr s) = s"

text \<open>\<open>s.split(sep)\<close> for a one-character separator: never empty, empty pieces are kept.\<close>

fun split :: "char \<Rightarrow> string \<Rightarrow> string list" where
  "split sep [] = [[]]"
| "split sep (c # cs) =
     (if c = sep then [] # split sep cs
      else (case split sep cs of [] \<Rightarrow> [[c]] | w # ws \<Rightarrow> (c # w) # ws))"

text \<open>
  \<open>s.strip()\<close>: the white space of Python is removed at both ends. Below 256 the white
  space is the tabulators and line ends 9 to 13, the separators 28 to 31, the space, the
  next-line character 133 and the no-break space 160.
\<close>

definition isspace :: "char \<Rightarrow> bool" where
  "isspace c \<longleftrightarrow> c \<in> set [CHR 0x09, CHR 0x0A, CHR 0x0B, CHR 0x0C, CHR 0x0D,
                          CHR 0x1C, CHR 0x1D, CHR 0x1E, CHR 0x1F, CHR 0x20, CHR 0x85, CHR 0xA0]"

definition strip :: "string \<Rightarrow> string" where
  "strip s = rev (dropWhile isspace (rev (dropWhile isspace s)))"

section \<open>Counting values\<close>

text \<open>
  \<open>value_counts\<close> first counts the values in a hash table, which keeps the keys in the
  order of their first occurrence, and then sorts the counts in descending order with the
  default sort of the library. That sort is not part of this repository and the library
  documents only that the result is in descending order of the counts, so it is the
  parameter \<open>srt\<close>, and \<open>sorts_descending\<close> is what is known of it.
\<close>

fun bump :: "pyobj \<Rightarrow> (pyobj \<times> nat) list \<Rightarrow> (pyobj \<times> nat) list" where
  "bump x [] = [(x, 1)]"
| "bump x ((k, c) # kcs) = (if py_eq k x then (k, Suc c) # kcs else (k, c) # bump x kcs)"

definition tally :: "pyobj list \<Rightarrow> (pyobj \<times> nat) list" where
  "tally xs = foldl (\<lambda>acc x. bump x acc) [] xs"

definition dropna :: "pyobj list \<Rightarrow> pyobj list" where
  "dropna xs = filter (\<lambda>x. x \<noteq> NA) xs"

definition value_counts ::
  "((pyobj \<times> nat) list \<Rightarrow> (pyobj \<times> nat) list) \<Rightarrow> pyobj list \<Rightarrow> (pyobj \<times> nat) list" where
  "value_counts srt xs = srt (tally (dropna xs))"

definition sorts_descending :: "((pyobj \<times> nat) list \<Rightarrow> (pyobj \<times> nat) list) \<Rightarrow> bool" where
  "sorts_descending srt \<longleftrightarrow>
     (\<forall>kcs. mset (srt kcs) = mset kcs \<and> sorted_wrt (\<lambda>a b. snd b \<le> snd a) (srt kcs))"

text \<open>
  A sort that meets \<open>sorts_descending\<close>: the stable one, which leaves equal counts in
  their first-seen order.
\<close>

definition sort_stable :: "(pyobj \<times> nat) list \<Rightarrow> (pyobj \<times> nat) list" where
  "sort_stable kcs = rev (sort_key snd (rev kcs))"

section \<open>The distribution of answers (stack\_survey/survey.py)\<close>

text \<open>
  The division of a count by the total. NumPy does not raise on a zero divisor (it warns
  and yields inf or nan); the model makes that event a value, so that its absence can be
  stated.
\<close>

definition share :: "nat \<Rightarrow> nat \<Rightarrow> error + real" where
  "share cnt tot = (if tot = 0 then Inl DivisionByZero else Inr (real cnt / real tot))"

text \<open>The dict comprehension \<open>{opt: cnt / total for opt, cnt in counts.items()}\<close>.\<close>

fun shares :: "(pyobj \<times> nat) list \<Rightarrow> nat \<Rightarrow> error + (pyobj \<times> real) list" where
  "shares [] tot = Inr []"
| "shares ((opt, cnt) # rest) tot =
     (case share cnt tot of
        Inl e \<Rightarrow> Inl e
      | Inr s \<Rightarrow> (case shares rest tot of Inl e \<Rightarrow> Inl e | Inr d \<Rightarrow> Inr ((opt, s) # d)))"

text \<open>The tokens of the multiple-choice branch: \<open>flat\<close> in the source.\<close>

definition flat_options :: "(real \<Rightarrow> string) \<Rightarrow> column \<Rightarrow> string list" where
  "flat_options fstr col =
     map strip (concat (map (split CHR '';'') (map (py_str fstr) (dropna (cells col)))))"

definition answer_distribution ::
  "(real \<Rightarrow> string) \<Rightarrow> ((pyobj \<times> nat) list \<Rightarrow> (pyobj \<times> nat) list) \<Rightarrow>
     table \<Rightarrow> string \<Rightarrow> bool \<Rightarrow> error + (pyobj \<times> real) list" where
  "answer_distribution fstr srt df question multiple_choice =
     (case getitem df question of
        None \<Rightarrow> Inr []
      | Some col \<Rightarrow>
          if multiple_choice then
            (let flat = flat_options fstr col;
                 tot = length flat;
                 counts = value_counts srt (map PStr flat)
             in shares counts tot)
          else
            (let counts = value_counts srt (cells col);
                 tot = sum_list (map snd counts)
             in shares counts tot))"

section \<open>Row selection (so\_survey/subset.py)\<close>

text \<open>
  \<open>df[mask]\<close>: the rows at which the boolean mask is true, in their order. Every column
  keeps its dtype and the index keeps the labels of the rows that stay.
\<close>

definition select :: "bool list \<Rightarrow> 'a list \<Rightarrow> 'a list" where
  "select msk xs = map snd (filter fst (zip msk xs))"

fun col_app ::
  "(int list \<Rightarrow> int list) \<Rightarrow> (real option list \<Rightarrow> real option list) \<Rightarrow>
     (pyobj list \<Rightarrow> pyobj list) \<Rightarrow> column \<Rightarrow> column" where
  "col_app f g h (IntCol xs) = IntCol (f xs)"
| "col_app f g h (FloatCol xs) = FloatCol (g xs)"
| "col_app f g h (ObjCol xs) = ObjCol (h xs)"

definition col_select :: "bool list \<Rightarrow> column \<Rightarrow> column" where
  "col_select msk = col_app (select msk) (select msk) (select msk)"

definition take_mask :: "table \<Rightarrow> bool list \<Rightarrow> table" where
  "take_mask df msk =
     \<lparr>idx = select msk (idx df), cols = map (\<lambda>(n, c). (n, col_select msk c)) (cols df)\<rparr>"

text \<open>
  \<open>Series.isin(values)\<close> for a list of texts, which is what the command line and the
  session pass: a cell matches when it is one of these texts. The library matches
  exactly and documents that strings and numbers are distinct here
  (\<open>pd.Series([1]).isin(['1'])\<close> is false), so a number matches no text, and neither does
  a missing cell.
\<close>

definition isin :: "pyobj list \<Rightarrow> string list \<Rightarrow> bool list" where
  "isin xs values_list =
     map (\<lambda>x. case x of PStr s \<Rightarrow> s \<in> set values_list | _ \<Rightarrow> False) xs"

definition filter_by_column :: "table \<Rightarrow> string \<Rightarrow> string list \<Rightarrow> error + table" where
  "filter_by_column df column values_list =
     (case getitem df column of
        None \<Rightarrow> Inl (KeyError column (columns df))
      | Some col \<Rightarrow>
          if values_list = [] then Inl (ValueError ''Values list cannot be empty'')
          else Inr (take_mask df (isin (cells col) values_list)))"

text \<open>
  What \<open>filter_by_column\<close> prints besides returning: when no row is found, the values
  asked for and the first twenty distinct values of the column.
\<close>

definition unique :: "pyobj list \<Rightarrow> pyobj list" where
  "unique xs = map fst (tally xs)"

definition filter_by_column_warning ::
  "table \<Rightarrow> string \<Rightarrow> string list \<Rightarrow> (string list \<times> pyobj list) option" where
  "filter_by_column_warning df column values_list =
     (case getitem df column of
        None \<Rightarrow> None
      | Some col \<Rightarrow>
          if values_list = [] then None
          else if select (isin (cells col) values_list) (idx df) = []
          then Some (values_list, take 20 (unique (dropna (cells col))))
          else None)"

text \<open>
  A bound of \<open>filter_by_value_range\<close> is a number, a text or NaN; the absent bound is
  \<open>None\<close>. NaN is a bound that is present: the source tests \<open>is not None\<close> only.
\<close>

datatype bound = BNum real | BStr string | BNaN

datatype cmp = GE | LE

text \<open>
  One cell against the bound. A missing cell compares false; a number against a text, or
  a text against a number, is the TypeError of Python. Texts are ordered as Python orders
  them, character by character. Against NaN every comparison is false.
\<close>

fun py_cmp :: "cmp \<Rightarrow> bound \<Rightarrow> pyobj \<Rightarrow> error + bool" where
  "py_cmp op b NA = Inr False"
| "py_cmp op BNaN x = Inr False"
| "py_cmp GE (BNum r) (PInt i) = Inr (r \<le> of_int i)"
| "py_cmp LE (BNum r) (PInt i) = Inr (of_int i \<le> r)"
| "py_cmp GE (BNum r) (PFloat x) = Inr (r \<le> x)"
| "py_cmp LE (BNum r) (PFloat x) = Inr (x \<le> r)"
| "py_cmp GE (BStr t) (PStr s) = Inr (t \<le> s)"
| "py_cmp LE (BStr t) (PStr s) = Inr (s \<le> t)"
| "py_cmp op (BStr t) (PInt i) = Inl TypeError"
| "py_cmp op (BStr t) (PFloat x) = Inl TypeError"
| "py_cmp op (BNum r) (PStr s) = Inl TypeError"

text \<open>The comparisons of the cells in row order; the first failure is the result.\<close>

fun cmp_cells :: "cmp \<Rightarrow> bound \<Rightarrow> pyobj list \<Rightarrow> error + bool list" where
  "cmp_cells op b [] = Inr []"
| "cmp_cells op b (x # xs) =
     (case py_cmp op b x of
        Inl e \<Rightarrow> Inl e
      | Inr v \<Rightarrow> (case cmp_cells op b xs of Inl e \<Rightarrow> Inl e | Inr vs \<Rightarrow> Inr (v # vs)))"

fun is_number :: "column \<Rightarrow> bool" where
  "is_number (IntCol xs) = True"
| "is_number (FloatCol xs) = True"
| "is_number (ObjCol xs) = False"

text \<open>
  \<open>Series >= bound\<close> and \<open>Series <= bound\<close>. Against a missing scalar the library
  answers false for every row without comparing any cell. A numeric column refuses a text
  bound whatever its cells are; otherwise the cells are compared one by one.
\<close>

definition cmp_col :: "cmp \<Rightarrow> column \<Rightarrow> bound \<Rightarrow> error + bool list" where
  "cmp_col op col b =
     (case b of
        BNaN \<Rightarrow> Inr (map (\<lambda>x. False) (cells col))
      | BStr t \<Rightarrow> if is_number col then Inl TypeError else cmp_cells op b (cells col)
      | BNum r \<Rightarrow> cmp_cells op b (cells col))"

definition filter_cmp :: "cmp \<Rightarrow> table \<Rightarrow> string \<Rightarrow> bound \<Rightarrow> error + table" where
  "filter_cmp op result column b =
     (case getitem result column of
        None \<Rightarrow> Inl (KeyError column (columns result))
      | Some col \<Rightarrow>
          (case cmp_col op col b of Inl e \<Rightarrow> Inl e | Inr msk \<Rightarrow> Inr (take_mask result msk)))"

definition filter_by_value_range ::
  "table \<Rightarrow> string \<Rightarrow> bound option \<Rightarrow> bound option \<Rightarrow> error + table" where
  "filter_by_value_range df column min_value max_value =
     (case getitem df column of
        None \<Rightarrow> Inl (KeyError column (columns df))
      | Some col \<Rightarrow>
          (case (case min_value of None \<Rightarrow> Inr df | Some b \<Rightarrow> filter_cmp GE df column b) of
             Inl e \<Rightarrow> Inl e
           | Inr result \<Rightarrow>
               (case max_value of None \<Rightarrow> Inr result | Some b \<Rightarrow> filter_cmp LE result column b)))"

section \<open>Descriptive statistics (so\_survey/stats.py)\<close>

text \<open>
  \<open>df[include]\<close> for a list of labels: the named columns in the order asked for, or a
  KeyError that names the labels the table does not have.
\<close>

definition getitem_list :: "table \<Rightarrow> string list \<Rightarrow> error + table" where
  "getitem_list df include =
     (if list_all (\<lambda>c. c \<in> set (columns df)) include
      then Inr \<lparr>idx = idx df,
                cols = List.map_filter (\<lambda>c. map_option (Pair c) (getitem df c)) include\<rparr>
      else Inl (LabelsNotInIndex (filter (\<lambda>c. c \<notin> set (columns df)) include)))"

text \<open>\<open>select_dtypes(include=['number'])\<close>: the int64 and float64 columns.\<close>

definition select_dtypes_number :: "table \<Rightarrow> table" where
  "select_dtypes_number df = \<lparr>idx = idx df, cols = filter (\<lambda>(n, c). is_number c) (cols df)\<rparr>"

text \<open>The values of a numeric column that are not missing, as the reductions see them.\<close>

fun present :: "column \<Rightarrow> real list" where
  "present (IntCol xs) = map of_int xs"
| "present (FloatCol xs) = List.map_filter (\<lambda>x. x) xs"
| "present (ObjCol xs) = []"

text \<open>
  The reductions of pandas over the values that are present; \<open>None\<close> is NaN. The
  standard deviation has one delta degree of freedom.
\<close>

definition count :: "real list \<Rightarrow> real option" where
  "count xs = Some (real (length xs))"

definition mean :: "real list \<Rightarrow> real option" where
  "mean xs = (if xs = [] then None else Some (sum_list xs / real (length xs)))"

definition median :: "real list \<Rightarrow> real option" where
  "median xs =
     (if xs = [] then None
      else let sorted_data = sort xs; n = length sorted_data; mid = n div 2
           in if n mod 2 = 0 then Some ((sorted_data ! (mid - 1) + sorted_data ! mid) / 2)
              else Some (sorted_data ! mid))"

definition std :: "real list \<Rightarrow> real option" where
  "std xs =
     (if length xs < 2 then None
      else let avg = sum_list xs / real (length xs);
               sqr = sum_list (map (\<lambda>x. (avg - x)\<^sup>2) xs)
           in Some (sqrt (sqr / real (length xs - 1))))"

definition minimum :: "real list \<Rightarrow> real option" where
  "minimum xs = (case xs of [] \<Rightarrow> None | x # rest \<Rightarrow> Some (fold min rest x))"

definition maximum :: "real list \<Rightarrow> real option" where
  "maximum xs = (case xs of [] \<Rightarrow> None | x # rest \<Rightarrow> Some (fold max rest x))"

text \<open>
  A frame of statistics: the labels of its rows and its named columns. \<open>describe\<close> builds
  the frame with one column per statistic and one row per numeric column, and returns its
  transpose.
\<close>

record frame =
  f_index :: "string list"
  f_cols :: "(string \<times> real option list) list"

definition reduce_all :: "(real list \<Rightarrow> real option) \<Rightarrow> table \<Rightarrow> real option list" where
  "reduce_all f numeric_df = map (\<lambda>(n, c). f (present c)) (cols numeric_df)"

definition transpose_frame :: "frame \<Rightarrow> frame" where
  "transpose_frame fr =
     \<lparr>f_index = map fst (f_cols fr),
      f_cols = map (\<lambda>(j, label). (label, map (\<lambda>(n, vals). vals ! j) (f_cols fr)))
                 (zip [0..<length (f_index fr)] (f_index fr))\<rparr>"

definition describe :: "table \<Rightarrow> string list option \<Rightarrow> error + frame" where
  "describe df include =
     (case (case include of None \<Rightarrow> Inr df | Some cs \<Rightarrow> getitem_list df cs) of
        Inl e \<Rightarrow> Inl e
      | Inr d \<Rightarrow>
          let numeric_df = select_dtypes_number d;
              stats = \<lparr>f_index = columns numeric_df,
                       f_cols = [(''count'', reduce_all count numeric_df),
                                 (''mean'', reduce_all mean numeric_df),
                                 (''median'', reduce_all median numeric_df),
                                 (''std'', reduce_all std numeric_df),
                                 (''min'', reduce_all minimum numeric_df),
                                 (''max'', reduce_all maximum numeric_df)]\<rparr>
          in Inr (transpose_frame stats))"

section \<open>The interactive session (so\_survey/repl.py)\<close>

text \<open>
  The session keeps the name of the current dataset, the current table and the directory.
  It starts with none of them: \<open>current_df = None\<close> is the state without a dataset.
\<close>

record repl =
  current_dataset :: "string option"
  current_df :: "table option"
  directory :: "string option"

definition init :: repl where
  "init = \<lparr>current_dataset = None, current_df = None, directory = None\<rparr>"

text \<open>
  What a handler prints or writes, in order: a line of text, a table or a frame of
  statistics rendered by \<open>to_string\<close>, the line that reports a caught exception after
  its prefix, the line with the memory usage of a table, the prompt of \<open>input\<close>, and
  the file that \<open>to_csv\<close> writes, and the warning of \<open>filter_by_column\<close> (the
  column, the values asked for and the values seen).
\<close>

datatype out =
    Text string
  | Table table
  | Stats frame
  | Failure string error
  | MemoryUsage table
  | Prompt string
  | Saved string table
  | NoRowsWarning string "string list" "pyobj list"

text \<open>
  What the handlers use and this module does not define: the tokenizer \<open>shlex.split\<close>,
  \<open>int\<close> on a text (\<open>None\<close> is its ValueError), \<open>DataFrame.query\<close>, the writing of a
  file, and the global names \<open>filter_by_column\<close> and \<open>describe\<close>. repl.py imports only
  \<open>load_survey\<close> and \<open>list_excel_sheets\<close>, so these two names are looked up when a
  handler calls them; \<open>None\<close> is the name without a binding, which is the NameError that
  the handler catches, and \<open>Some f\<close> is the name bound to \<open>f\<close>.
\<close>

record env =
  shlex_split :: "string \<Rightarrow> error + string list"
  py_int :: "string \<Rightarrow> int option"
  query :: "table \<Rightarrow> string \<Rightarrow> error + table"
  to_csv :: "table \<Rightarrow> string \<Rightarrow> error option"
  name_filter_by_column :: "(table \<Rightarrow> string \<Rightarrow> string list \<Rightarrow> out list \<times> (error + table)) option"
  name_describe :: "(table \<Rightarrow> string list option \<Rightarrow> error + frame) option"

definition no_dataset :: out where
  "no_dataset = Text ''No dataset loaded. Use 'load DATASET' first.''"

text \<open>\<open>s.lower()\<close> on ASCII letters.\<close>

definition lower_char :: "char \<Rightarrow> char" where
  "lower_char c =
     (case map_of (zip ''ABCDEFGHIJKLMNOPQRSTUVWXYZ'' ''abcdefghijklmnopqrstuvwxyz'') c of
        None \<Rightarrow> c
      | Some l \<Rightarrow> l)"

definition lower :: "string \<Rightarrow> string" where
  "lower s = map lower_char s"

text \<open>\<open>df.head(n)\<close> and \<open>df.tail(n)\<close>; a negative \<open>n\<close> leaves out rows at the other end.\<close>

definition rows_app :: "(nat \<Rightarrow> nat) \<Rightarrow> bool \<Rightarrow> table \<Rightarrow> table" where
  "rows_app k from_end df =
     (if from_end
      then \<lparr>idx = drop (k (nrows df)) (idx df),
            cols = map (\<lambda>(n, c). (n, col_app (drop (k (nrows df))) (drop (k (nrows df)))
                                        (drop (k (nrows df))) c)) (cols df)\<rparr>
      else \<lparr>idx = take (k (nrows df)) (idx df),
            cols = map (\<lambda>(n, c). (n, col_app (take (k (nrows df))) (take (k (nrows df)))
                                        (take (k (nrows df))) c)) (cols df)\<rparr>)"

definition head :: "int \<Rightarrow> table \<Rightarrow> table" where
  "head n df = rows_app (\<lambda>len. if 0 \<le> n then nat n else nat (int len + n)) False df"

definition tail :: "int \<Rightarrow> table \<Rightarrow> table" where
  "tail n df = rows_app (\<lambda>len. if 0 \<le> n then len - nat n else nat (- n)) True df"

definition rjust3 :: "string \<Rightarrow> string" where
  "rjust3 s = replicate (3 - length s) CHR '' '' @ s"

text \<open>
  The handlers that only show something. They hold no assignment to the session, so they
  yield what is printed; the dispatcher keeps the state.
\<close>

definition do_info :: "env \<Rightarrow> repl \<Rightarrow> string \<Rightarrow> out list" where
  "do_info e s args =
     (case current_df s of
        None \<Rightarrow> [no_dataset]
      | Some df \<Rightarrow>
          [Text (''Current dataset: '' @ (case current_dataset s of None \<Rightarrow> ''None'' | Some d \<Rightarrow> d)),
           Text (''Shape: '' @ str_nat (nrows df) @ '' rows, '' @ str_nat (length (cols df))
                 @ '' columns''),
           MemoryUsage df,
           Text (CHR 0x0A # ''Column types:'')]
          @ map (\<lambda>(col, c). Text (''  - '' @ col @ '': '' @ dtype c)) (cols df))"

definition do_head :: "env \<Rightarrow> repl \<Rightarrow> string \<Rightarrow> out list" where
  "do_head e s args =
     (case current_df s of
        None \<Rightarrow> [no_dataset]
      | Some df \<Rightarrow>
          if strip args = [] then [Table (head 5 df)]
          else (case py_int e args of
                  None \<Rightarrow> [Text ''Error: Invalid number'']
                | Some n \<Rightarrow> [Table (head n df)]))"

definition do_tail :: "env \<Rightarrow> repl \<Rightarrow> string \<Rightarrow> out list" where
  "do_tail e s args =
     (case current_df s of
        None \<Rightarrow> [no_dataset]
      | Some df \<Rightarrow>
          if strip args = [] then [Table (tail 5 df)]
          else (case py_int e args of
                  None \<Rightarrow> [Text ''Error: Invalid number'']
                | Some n \<Rightarrow> [Table (tail n df)]))"

definition do_columns :: "env \<Rightarrow> repl \<Rightarrow> string \<Rightarrow> out list" where
  "do_columns e s args =
     (case current_df s of
        None \<Rightarrow> [no_dataset]
      | Some df \<Rightarrow>
          Text ''Columns:''
          # map (\<lambda>(i, col). Text (rjust3 (str_nat i) @ ''. '' @ col))
              (zip [1..<Suc (length (columns df))] (columns df)))"

definition do_describe :: "env \<Rightarrow> repl \<Rightarrow> string \<Rightarrow> out list" where
  "do_describe e s args =
     (case current_df s of
        None \<Rightarrow> [no_dataset]
      | Some df \<Rightarrow>
          (case (if strip args = [] then Inr None
                 else (case shlex_split e args of Inl x \<Rightarrow> Inl x | Inr cs \<Rightarrow> Inr (Some cs))) of
             Inl x \<Rightarrow> [Failure ''Error calculating statistics: '' x]
           | Inr cs \<Rightarrow>
               (case name_describe e of
                  None \<Rightarrow> [Failure ''Error calculating statistics: '' (NameError ''describe'')]
                | Some f \<Rightarrow>
                    (case f df cs of
                       Inl x \<Rightarrow> [Failure ''Error calculating statistics: '' x]
                     | Inr stats_df \<Rightarrow> [Text ''Descriptive Statistics:'', Stats stats_df]))))"

definition do_save :: "env \<Rightarrow> repl \<Rightarrow> string \<Rightarrow> out list" where
  "do_save e s args =
     (case current_df s of
        None \<Rightarrow> [no_dataset]
      | Some df \<Rightarrow>
          if strip args = [] then [Text ''Error: Filename required'']
          else (case to_csv e df (strip args) of
                  Some x \<Rightarrow> [Failure ''Error saving dataset: '' x]
                | None \<Rightarrow> [Saved (strip args) df, Text (''Dataset saved to '' @ strip args)]))"

text \<open>
  The two handlers that can replace the current table. \<open>inp\<close> is what is still to be
  read from the terminal: \<open>input\<close> takes its first line, and at the end of the input it
  raises EOFError, which the handler catches like any exception. The table is assigned
  only after the answer, lowered, is \<open>y\<close> or \<open>yes\<close>.
\<close>

definition confirm ::
  "repl \<Rightarrow> string list \<Rightarrow> out list \<Rightarrow> string \<Rightarrow> string \<Rightarrow> string \<Rightarrow> table \<Rightarrow>
     repl \<times> string list \<times> out list" where
  "confirm s inp shown prompt done failed candidate =
     (case inp of
        [] \<Rightarrow> (s, [], shown @ [Prompt prompt, Failure failed EOFError])
      | response # rest \<Rightarrow>
          if lower response \<in> set [''y'', ''yes'']
          then (s\<lparr>current_df := Some candidate\<rparr>, rest, shown @ [Prompt prompt, Text done])
          else (s, rest, shown @ [Prompt prompt]))"

definition do_filter :: "env \<Rightarrow> repl \<Rightarrow> string \<Rightarrow> string list \<Rightarrow> repl \<times> string list \<times> out list" where
  "do_filter e s args inp =
     (case current_df s of
        None \<Rightarrow> (s, inp, [no_dataset])
      | Some df \<Rightarrow>
          (case shlex_split e args of
             Inl x \<Rightarrow> (s, inp, [Failure ''Error filtering dataset: '' x])
           | Inr args_list \<Rightarrow>
               if length args_list < 2
               then (s, inp, [Text ''Error: Column and at least one value required''])
               else if hd args_list \<notin> set (columns df)
               then (s, inp, [Text (''Error: Column '' @ [CHR 0x27] @ hd args_list @ [CHR 0x27] @ '' not found'')])
               else (case name_filter_by_column e of
                  None \<Rightarrow>
                    (s, inp, [Failure ''Error filtering dataset: '' (NameError ''filter_by_column'')])
                | Some f \<Rightarrow>
                    (case f df (hd args_list) (tl args_list) of
                       (warned, Inl x) \<Rightarrow>
                         (s, inp, warned @ [Failure ''Error filtering dataset: '' x])
                     | (warned, Inr filtered_df) \<Rightarrow>
                         confirm s inp
                           (warned @
                            [Text (''Filtered dataset: '' @ str_nat (nrows filtered_df)
                                   @ '' rows (from '' @ str_nat (nrows df) @ '')''),
                             Text (CHR 0x0A # ''Preview of filtered data:''),
                             Table (head 5 filtered_df)])
                           (CHR 0x0A # ''Replace current dataset with filtered data? (y/N): '')
                           ''Current dataset updated with filtered data.''
                           ''Error filtering dataset: ''
                           filtered_df))))"

definition do_query :: "env \<Rightarrow> repl \<Rightarrow> string \<Rightarrow> string list \<Rightarrow> repl \<times> string list \<times> out list" where
  "do_query e s args inp =
     (case current_df s of
        None \<Rightarrow> (s, inp, [no_dataset])
      | Some df \<Rightarrow>
          if strip args = [] then (s, inp, [Text ''Error: Query expression required''])
          else (case query e df args of
             Inl x \<Rightarrow> (s, inp, [Failure ''Error executing query: '' x])
           | Inr result \<Rightarrow>
               confirm s inp
                 [Text (''Query result: '' @ str_nat (nrows result) @ '' rows''),
                  Text (CHR 0x0A # ''Preview:''),
                  Table (head 5 result)]
                 (CHR 0x0A # ''Replace current dataset with query result? (y/N): '')
                 ''Current dataset updated with query result.''
                 ''Error executing query: ''
                 result))"

text \<open>
  What \<open>filter_by_column\<close> of subset.py is when a handler calls it: its warning lines,
  then its result.
\<close>

definition filter_by_column_call ::
  "table \<Rightarrow> string \<Rightarrow> string list \<Rightarrow> out list \<times> (error + table)" where
  "filter_by_column_call df column values_list =
     ((case filter_by_column_warning df column values_list of
         None \<Rightarrow> []
       | Some (asked, seen) \<Rightarrow>
           [NoRowsWarning column asked seen]),
      filter_by_column df column values_list)"

text \<open>
  The dispatch of one command line, already split into the command and its argument
  text, and the loop. A handler stops the loop by returning true; only \<open>exit\<close>,
  \<open>quit\<close> and the end of the input do.
\<close>

datatype command = Head | Tail | Columns | Describe | Filter | Query | Save | Info | Exit | Quit | EOF

fun onecmd ::
  "env \<Rightarrow> repl \<Rightarrow> string list \<Rightarrow> command \<times> string \<Rightarrow> repl \<times> string list \<times> out list \<times> bool" where
  "onecmd e s inp (Head, args) = (s, inp, do_head e s args, False)"
| "onecmd e s inp (Tail, args) = (s, inp, do_tail e s args, False)"
| "onecmd e s inp (Columns, args) = (s, inp, do_columns e s args, False)"
| "onecmd e s inp (Describe, args) = (s, inp, do_describe e s args, False)"
| "onecmd e s inp (Save, args) = (s, inp, do_save e s args, False)"
| "onecmd e s inp (Info, args) = (s, inp, do_info e s args, False)"
| "onecmd e s inp (Filter, args) =
     (case do_filter e s args inp of (s', inp', printed) \<Rightarrow> (s', inp', printed, False))"
| "onecmd e s inp (Query, args) =
     (case do_query e s args inp of (s', inp', printed) \<Rightarrow> (s', inp', printed, False))"
| "onecmd e s inp (Exit, args) = (s, inp, [Text ''Goodbye!''], True)"
| "onecmd e s inp (Quit, args) = (s, inp, [Text ''Goodbye!''], True)"
| "onecmd e s inp (EOF, args) = (s, inp, [Text (CHR 0x0A # ''Goodbye!'')], True)"

text \<open>
  \<open>cmdloop\<close> runs the command lines in order until one stops it; it returns the state,
  the rest of the input, all that was printed and the command lines it did not reach.
\<close>

fun cmdloop ::
  "env \<Rightarrow> repl \<Rightarrow> string list \<Rightarrow> (command \<times> string) list \<Rightarrow>
     repl \<times> string list \<times> out list \<times> (command \<times> string) list" where
  "cmdloop e s inp [] = (s, inp, [], [])"
| "cmdloop e s inp (line # lines) =
     (case onecmd e s inp line of
        (s', inp', printed, stop) \<Rightarrow>
          if stop then (s', inp', printed, lines)
          else (case cmdloop e s' inp' lines of
                  (s'', inp'', printed', rest) \<Rightarrow> (s'', inp'', printed @ printed', rest)))"

section \<open>The statements of the specification\<close>

text \<open>
  The tokens of the multi-valued mode in the words of the specification. A text is split
  on the separator into pieces: the pieces hold no separator, and joined by the separator
  they give the text back. A token is a piece trimmed: the piece is the token between two
  runs of white space, and the token neither begins nor ends with white space. The tokens
  of a column are the tokens of the rendered text of each cell that is not missing, in
  the order of the rows.
\<close>

fun join :: "char \<Rightarrow> string list \<Rightarrow> string" where
  "join sep [] = []"
| "join sep [p] = p"
| "join sep (p # q # ps) = p @ sep # join sep (q # ps)"

definition splits_into :: "string \<Rightarrow> string list \<Rightarrow> bool" where
  "splits_into s ps \<longleftrightarrow>
     ps \<noteq> [] \<and> join CHR '';'' ps = s \<and> list_all (\<lambda>p. CHR '';'' \<notin> set p) ps"

definition trimmed :: "string \<Rightarrow> string \<Rightarrow> bool" where
  "trimmed piece t \<longleftrightarrow>
     (\<exists>a b. piece = a @ t @ b \<and> list_all isspace a \<and> list_all isspace b)
     \<and> (t = [] \<or> (\<not> isspace (hd t) \<and> \<not> isspace (last t)))"

definition tokens_of_text :: "string \<Rightarrow> string list \<Rightarrow> bool" where
  "tokens_of_text s toks \<longleftrightarrow> (\<exists>ps. splits_into s ps \<and> list_all2 trimmed ps toks)"

definition tokens_of_column :: "(real \<Rightarrow> string) \<Rightarrow> column \<Rightarrow> string list \<Rightarrow> bool" where
  "tokens_of_column fstr col toks \<longleftrightarrow>
     (\<exists>tss. list_all2 tokens_of_text
              (map (py_str fstr) (filter (\<lambda>c. c \<noteq> NA) (cells col))) tss
            \<and> toks = concat tss)"

text \<open>The table of tests/test\_survey.py.\<close>

definition test_survey :: table where
  "test_survey =
     \<lparr>idx = [0, 1, 2, 3, 4, 5],
      cols = [(''Q1'', ObjCol [PStr ''A'', PStr ''B'', PStr ''A'', PStr ''C'', PStr ''A;B'', PStr ''B;C'']),
              (''Q2'', ObjCol [PStr ''Yes'', PStr ''No'', PStr ''Yes'', PStr ''No'', PStr ''Yes'', PStr ''No''])]\<rparr>"

text \<open>The count that an association list of counts gives a key, zero when it has none.\<close>

definition cnt_of :: "(pyobj \<times> nat) list \<Rightarrow> pyobj \<Rightarrow> nat" where
  "cnt_of kcs k = (case map_of kcs k of None \<Rightarrow> 0 | Some c \<Rightarrow> c)"

text \<open>
  A table with one column of each dtype, with missing cells, and with the row labels that
  an earlier selection has left; and a column of answers with white space around them.
\<close>

definition respondents :: table where
  "respondents =
     \<lparr>idx = [3, 5, 8, 9],
      cols = [(''country'', ObjCol [PStr ''USA'', NA, PInt 7, PStr ''UK'']),
              (''salary'', FloatCol [Some 1.5, None, Some 3.5, Some 5.5]),
              (''age'', IntCol [25, 30, 35, 40])]\<rparr>"

definition spaced :: table where
  "spaced =
     \<lparr>idx = [0, 1, 2, 3],
      cols = [(''Q'', ObjCol [PStr ''A; B'', PStr [CHR 0x20, CHR ''B'', CHR 0x09], NA,
                             PStr [CHR ''A'', CHR 0xA0, CHR '';'', CHR 0x85, CHR ''C'']])]\<rparr>"

text \<open>The table of the examples in so\_survey/subset.py and so\_survey/stats.py.\<close>

definition countries :: table where
  "countries =
     \<lparr>idx = [0, 1, 2, 3, 4],
      cols = [(''country'', ObjCol [PStr ''USA'', PStr ''Canada'', PStr ''UK'', PStr ''USA'',
                                   PStr ''Australia'']),
              (''age'', IntCol [25, 30, 35, 40, 45])]\<rparr>"

text \<open>
  A column whose values cannot be ordered: it holds a text and a number, and Python
  defines no order between the two.
\<close>

fun is_text :: "pyobj \<Rightarrow> bool" where
  "is_text (PStr s) = True"
| "is_text _ = False"

fun is_num :: "pyobj \<Rightarrow> bool" where
  "is_num (PInt i) = True"
| "is_num (PFloat r) = True"
| "is_num _ = False"

definition non_orderable :: "column \<Rightarrow> bool" where
  "non_orderable col \<longleftrightarrow> list_ex is_text (cells col) \<and> list_ex is_num (cells col)"

text \<open>The bound that is applied first: the lower one when it is present.\<close>

definition first_bound :: "bound option \<Rightarrow> bound option \<Rightarrow> bound option" where
  "first_bound min_value max_value = (case min_value of Some b \<Rightarrow> Some b | None \<Rightarrow> max_value)"

text \<open>
  The statistics in the words of the specification, over the values that are present:
  their number, the arithmetic mean, the median (the middle value, or the average of the
  two middle values when the number is even), the sample standard deviation (the sum of
  the squared distances from the mean is divided by the number less one), the least and
  the greatest value. \<open>None\<close> is NaN, the result where the statistic is not defined.
\<close>

definition stat_names :: "string list" where
  "stat_names = [''count'', ''mean'', ''median'', ''std'', ''min'', ''max'']"

definition summary :: "real list \<Rightarrow> real option list" where
  "summary xs =
     [Some (real (length xs)),
      if xs = [] then None else Some (sum_list xs / real (length xs)),
      if xs = [] then None
      else Some (if even (length xs)
                 then (sort xs ! (length xs div 2 - 1) + sort xs ! (length xs div 2)) / 2
                 else sort xs ! (length xs div 2)),
      if length xs < 2 then None
      else Some (sqrt ((\<Sum>x\<leftarrow>xs. (x - sum_list xs / real (length xs))\<^sup>2)
                        / (real (length xs) - 1))),
      if xs = [] then None else Some (Min (set xs)),
      if xs = [] then None else Some (Max (set xs))]"

text \<open>
  The values of a column that are not missing, read off its cells, and the columns that
  are numeric, told by their dtype.
\<close>

fun number_of :: "pyobj \<Rightarrow> real option" where
  "number_of (PInt i) = Some (of_int i)"
| "number_of (PFloat r) = Some r"
| "number_of _ = None"

definition non_missing :: "column \<Rightarrow> real list" where
  "non_missing c = List.map_filter number_of (cells c)"

definition numeric :: "column \<Rightarrow> bool" where
  "numeric c \<longleftrightarrow> dtype c \<in> set [''int64'', ''float64'']"

text \<open>
  The table of statistics of a list of named columns: one row for each statistic, one
  column for each numeric column, in their order.
\<close>

definition stats_of :: "(string \<times> column) list \<Rightarrow> frame" where
  "stats_of ncs =
     \<lparr>f_index = stat_names,
      f_cols = map (\<lambda>(n, c). (n, summary (non_missing c))) (filter (\<lambda>(n, c). numeric c) ncs)\<rparr>"

text \<open>The table of the example in so\_survey/stats.py.\<close>

definition coders :: table where
  "coders =
     \<lparr>idx = [0, 1, 2, 3, 4],
      cols = [(''age'', IntCol [25, 30, 35, 40, 45]),
              (''years_coding'', IntCol [1, 5, 10, 15, 20])]\<rparr>"

text \<open>
  The commands that need a dataset, and the two kinds of answer to the question whether
  the current table is to be replaced: the affirmative one, and any other answer.
\<close>

definition dataset_scoped :: "command \<Rightarrow> bool" where
  "dataset_scoped c \<longleftrightarrow> c \<in> set [Head, Tail, Columns, Describe, Filter, Query, Save, Info]"

definition affirms :: "string list \<Rightarrow> bool" where
  "affirms inp \<longleftrightarrow>
     (case inp of [] \<Rightarrow> False | response # rest \<Rightarrow> lower response \<in> set [''y'', ''yes''])"

definition declines :: "string list \<Rightarrow> bool" where
  "declines inp \<longleftrightarrow>
     (case inp of [] \<Rightarrow> False | response # rest \<Rightarrow> lower response \<notin> set [''y'', ''yes''])"

text \<open>
  A session with the table of the docstrings loaded, and an environment in which the two
  global names are bound to the functions of subset.py and stats.py, the tokenizer yields
  the column country and the value USA, and the query yields the first two rows.
\<close>

definition loaded :: repl where
  "loaded = \<lparr>current_dataset = Some ''survey'', current_df = Some countries, directory = None\<rparr>"

definition bound_env :: env where
  "bound_env =
     \<lparr>shlex_split = (\<lambda>args. Inr [''country'', ''USA'']),
      py_int = (\<lambda>args. None),
      query = (\<lambda>df expr. Inr (head 2 df)),
      to_csv = (\<lambda>df filename. None),
      name_filter_by_column = Some filter_by_column_call,
      name_describe = Some describe\<rparr>"

section \<open>Counting: auxiliary facts\<close>

lemma py_eq_PStr [simp]: "py_eq k (PStr t) \<longleftrightarrow> k = PStr t"
  by (cases k) auto

lemma bump_not_Nil [simp]: "bump x kcs \<noteq> []"
  by (induction x kcs rule: bump.induct) auto

lemma sum_bump [simp]: "sum_list (map snd (bump x kcs)) = Suc (sum_list (map snd kcs))"
  by (induction x kcs rule: bump.induct) auto

lemma foldl_bump_Nil: "foldl (\<lambda>acc x. bump x acc) acc xs = [] \<longleftrightarrow> acc = [] \<and> xs = []"
  by (induction xs arbitrary: acc) auto

lemma tally_Nil_iff [simp]: "tally xs = [] \<longleftrightarrow> xs = []"
  by (simp add: tally_def foldl_bump_Nil)

lemma sum_foldl_bump:
  "sum_list (map snd (foldl (\<lambda>acc x. bump x acc) acc xs)) = sum_list (map snd acc) + length xs"
  by (induction xs arbitrary: acc) auto

lemma sum_tally [simp]: "sum_list (map snd (tally xs)) = length xs"
  by (simp add: tally_def sum_foldl_bump)

lemma map_fst_bump_str:
  "map fst (bump (PStr t) kcs) =
     (if PStr t \<in> set (map fst kcs) then map fst kcs else map fst kcs @ [PStr t])"
  by (induction "PStr t" kcs rule: bump.induct) auto

lemma distinct_bump_str:
  "distinct (map fst kcs) \<Longrightarrow> distinct (map fst (bump (PStr t) kcs))"
  by (simp only: map_fst_bump_str) simp

lemma keys_bump_str:
  "set (map fst (bump (PStr t) kcs)) = insert (PStr t) (set (map fst kcs))"
  by (simp only: map_fst_bump_str) auto

lemma cnt_of_bump_str:
  "cnt_of (bump (PStr t) kcs) k = (if k = PStr t then Suc (cnt_of kcs k) else cnt_of kcs k)"
  by (induction "PStr t" kcs rule: bump.induct) (auto simp: cnt_of_def)

lemma foldl_bump_str:
  "distinct (map fst acc) \<Longrightarrow>
   distinct (map fst (foldl (\<lambda>acc x. bump x acc) acc (map PStr ts)))
   \<and> set (map fst (foldl (\<lambda>acc x. bump x acc) acc (map PStr ts)))
        = set (map fst acc) \<union> PStr ` set ts
   \<and> cnt_of (foldl (\<lambda>acc x. bump x acc) acc (map PStr ts)) (PStr u)
       = cnt_of acc (PStr u) + count_list ts u"
proof (induction ts arbitrary: acc)
  case Nil
  then show ?case by simp
next
  case (Cons t ts)
  have d: "distinct (map fst (bump (PStr t) acc))"
    using Cons.prems by (rule distinct_bump_str)
  show ?case
    using Cons.IH [OF d] keys_bump_str [of t acc] by (auto simp: cnt_of_bump_str)
qed

lemma tally_str:
  "distinct (map fst (tally (map PStr ts)))"
  "set (map fst (tally (map PStr ts))) = PStr ` set ts"
  "cnt_of (tally (map PStr ts)) (PStr u) = count_list ts u"
  using foldl_bump_str [of "[]" ts u] by (simp_all add: tally_def cnt_of_def)

lemma shares_Inr:
  "tot \<noteq> 0 \<or> kcs = [] \<Longrightarrow> shares kcs tot = Inr (map (\<lambda>(k, c). (k, real c / real tot)) kcs)"
  by (induction kcs tot rule: shares.induct) (auto simp: share_def)

lemma srt_sum:
  assumes "sorts_descending srt"
  shows "sum_list (map snd (srt kcs)) = sum_list (map snd kcs)"
proof -
  have "mset (map snd (srt kcs)) = mset (map snd kcs)"
    using assms by (simp add: sorts_descending_def)
  then have "sum_mset (mset (map snd (srt kcs))) = sum_mset (mset (map snd kcs))"
    by simp
  then show ?thesis
    by (simp only: sum_mset_sum_list)
qed

lemma srt_set:
  assumes "sorts_descending srt"
  shows "set (srt kcs) = set kcs"
proof -
  have "mset (srt kcs) = mset kcs"
    using assms by (simp add: sorts_descending_def)
  then show ?thesis
    by (rule mset_eq_setD)
qed

lemma srt_Nil_iff:
  assumes "sorts_descending srt"
  shows "srt kcs = [] \<longleftrightarrow> kcs = []"
  using srt_set [OF assms, of kcs] by (simp only: set_empty [symmetric])

lemma srt_distinct:
  assumes "sorts_descending srt"
  shows "distinct (map fst (srt kcs)) \<longleftrightarrow> distinct (map fst kcs)"
proof -
  have "mset (map fst (srt kcs)) = mset (map fst kcs)"
    using assms by (simp add: sorts_descending_def)
  then show ?thesis
    by (rule mset_eq_imp_distinct_iff)
qed

lemma sorted_desc_rev_sort_key:
  "sorted_wrt (\<lambda>a b. snd b \<le> (snd a :: nat)) (rev (sort_key snd ys))"
proof -
  have "sorted (map snd (sort_key snd ys))"
    by (rule sorted_sort_key)
  then have "sorted_wrt (\<lambda>a b. (snd a :: nat) \<le> snd b) (sort_key snd ys)"
    unfolding sorted_map .
  then show ?thesis
    unfolding sorted_wrt_rev .
qed

lemma sorts_descending_stable: "sorts_descending sort_stable"
  unfolding sorts_descending_def sort_stable_def
  by (simp add: sorted_desc_rev_sort_key)

section \<open>The distribution: auxiliary facts\<close>

lemma dropna_PStr [simp]: "dropna (map PStr ts) = map PStr ts"
  by (induction ts) (auto simp: dropna_def)

lemma multiple_choice_result:
  assumes "sorts_descending srt" and "getitem df question = Some col"
  shows "answer_distribution fstr srt df question True =
           Inr (map (\<lambda>(k, c). (k, real c / real (length (flat_options fstr col))))
                  (srt (tally (map PStr (flat_options fstr col)))))"
proof -
  have "length (flat_options fstr col) \<noteq> 0 \<or> srt (tally (map PStr (flat_options fstr col))) = []"
    by (simp add: srt_Nil_iff [OF assms(1)])
  then show ?thesis
    using assms(2) by (simp add: answer_distribution_def value_counts_def shares_Inr Let_def)
qed

lemma single_choice_result:
  assumes "sorts_descending srt" and "getitem df question = Some col"
  shows "answer_distribution fstr srt df question False =
           Inr (map (\<lambda>(k, c). (k, real c / real (length (dropna (cells col)))))
                  (srt (tally (dropna (cells col)))))"
proof -
  have t: "sum_list (map snd (srt (tally (dropna (cells col))))) = length (dropna (cells col))"
    by (simp add: srt_sum [OF assms(1)])
  have "length (dropna (cells col)) \<noteq> 0 \<or> srt (tally (dropna (cells col))) = []"
    by (simp add: srt_Nil_iff [OF assms(1)])
  then show ?thesis
    using assms(2) t by (simp add: answer_distribution_def value_counts_def shares_Inr Let_def)
qed

lemma map_of_srt:
  assumes "sorts_descending srt" and "distinct (map fst kcs)"
  shows "map_of (srt kcs) = map_of kcs"
proof -
  have "distinct (map fst (srt kcs))"
    using assms by (simp add: srt_distinct)
  then show ?thesis
    using assms(2) srt_set [OF assms(1), of kcs] by (simp add: map_of_inject_set)
qed

lemma map_of_tally_str:
  assumes "t \<in> set ts"
  shows "map_of (tally (map PStr ts)) (PStr t) = Some (count_list ts t)"
proof -
  have "PStr t \<in> fst ` set (tally (map PStr ts))"
    using assms tally_str(2) [of ts] by auto
  then obtain c where c: "map_of (tally (map PStr ts)) (PStr t) = Some c"
    by (metis map_of_eq_None_iff not_Some_eq)
  then have "cnt_of (tally (map PStr ts)) (PStr t) = c"
    by (simp add: cnt_of_def)
  then show ?thesis
    using c by (simp add: tally_str(3))
qed

lemma map_of_scaled:
  "map_of (map (\<lambda>(k, c). (k, f c)) kcs) k = map_option f (map_of kcs k)"
  by (induction kcs) auto

lemma fst_scaled: "map fst (map (\<lambda>(k, c). (k, f c)) kcs) = map fst kcs"
  by (induction kcs) auto

lemma split_not_Nil [simp]: "split sep s \<noteq> []"
  by (induction s) (auto split: list.splits)

lemma join_split: "join sep (split sep s) = s"
proof (induction s)
  case Nil
  then show ?case by simp
next
  case (Cons c cs)
  obtain w ws where w: "split sep cs = w # ws"
    by (cases "split sep cs") simp_all
  show ?case
    using Cons w by (cases ws) auto
qed

lemma split_no_sep: "list_all (\<lambda>p. sep \<notin> set p) (split sep s)"
proof (induction s)
  case Nil
  then show ?case by simp
next
  case (Cons c cs)
  obtain w ws where w: "split sep cs = w # ws"
    by (cases "split sep cs") simp_all
  show ?case
    using Cons w by auto
qed

lemma split_splits_into: "splits_into s (split CHR '';'' s)"
  by (simp add: splits_into_def join_split split_no_sep)

lemma strip_trimmed: "trimmed s (strip s)"
proof -
  let ?u = "dropWhile isspace s"
  let ?t = "rev (dropWhile isspace (rev ?u))"
  let ?b = "rev (takeWhile isspace (rev ?u))"
  have u: "?u = ?t @ ?b"
  proof -
    have "rev ?u = takeWhile isspace (rev ?u) @ dropWhile isspace (rev ?u)"
      by simp
    then have "rev (rev ?u) = rev (takeWhile isspace (rev ?u) @ dropWhile isspace (rev ?u))"
      by (rule arg_cong)
    then show ?thesis
      by (simp only: rev_rev_ident rev_append)
  qed
  have s: "s = takeWhile isspace s @ ?t @ ?b"
  proof -
    have "s = takeWhile isspace s @ ?u"
      by simp
    then show ?thesis
      using u by simp
  qed
  have a: "list_all isspace (takeWhile isspace s)"
    by (auto simp: list_all_iff dest: set_takeWhileD)
  have b: "list_all isspace ?b"
    by (auto simp: list_all_iff dest: set_takeWhileD)
  have e: "\<not> isspace (hd ?t) \<and> \<not> isspace (last ?t)" if n: "?t \<noteq> []"
  proof
    have "?u \<noteq> []"
      using u n by (metis append_is_Nil_conv)
    then have "\<not> isspace (hd ?u)"
      by (rule hd_dropWhile)
    moreover have "hd ?u = hd ?t"
      using u n by (metis hd_append2)
    ultimately show "\<not> isspace (hd ?t)"
      by simp
  next
    have d: "dropWhile isspace (rev ?u) \<noteq> []"
      using n by simp
    then have "\<not> isspace (hd (dropWhile isspace (rev ?u)))"
      by (rule hd_dropWhile)
    then show "\<not> isspace (last ?t)"
      using d by (simp add: last_rev)
  qed
  have "\<exists>a b. s = a @ ?t @ b \<and> list_all isspace a \<and> list_all isspace b"
    using s a b by blast
  then show ?thesis
    using e unfolding trimmed_def strip_def by blast
qed

lemma trimmed_pieces: "list_all2 trimmed ps (map strip ps)"
  by (induction ps) (simp_all add: strip_trimmed)

lemma tokens_of_text_strip: "tokens_of_text s (map strip (split CHR '';'' s))"
  unfolding tokens_of_text_def using split_splits_into trimmed_pieces by blast

lemma tokens_of_texts:
  "list_all2 tokens_of_text ss (map (\<lambda>s. map strip (split CHR '';'' s)) ss)"
  by (induction ss) (simp_all add: tokens_of_text_strip)

lemma flat_options_tokens: "tokens_of_column fstr col (flat_options fstr col)"
proof -
  let ?ss = "map (py_str fstr) (filter (\<lambda>c. c \<noteq> NA) (cells col))"
  have "flat_options fstr col = concat (map (\<lambda>s. map strip (split CHR '';'' s)) ?ss)"
    by (simp add: flat_options_def dropna_def map_concat comp_def)
  then show ?thesis
    unfolding tokens_of_column_def using tokens_of_texts [of ?ss] by blast
qed

lemma multi_valued_general:
  assumes "sorts_descending srt" and "getitem df question = Some col"
  shows "\<exists>toks d. tokens_of_column fstr col toks
          \<and> answer_distribution fstr srt df question True = Inr d
          \<and> distinct (map fst d)
          \<and> set (map fst d) = PStr ` set toks
          \<and> (\<forall>t \<in> set toks.
                map_of d (PStr t) = Some (real (count_list toks t) / real (length toks)))"
proof -
  let ?ts = "flat_options fstr col"
  let ?d = "map (\<lambda>(k, c). (k, real c / real (length ?ts))) (srt (tally (map PStr ?ts)))"
  have r: "answer_distribution fstr srt df question True = Inr ?d"
    using multiple_choice_result [OF assms] by simp
  have d1: "distinct (map fst ?d)"
    by (simp only: fst_scaled srt_distinct [OF assms(1)] tally_str(1))
  have "set (map fst (srt (tally (map PStr ?ts)))) = set (map fst (tally (map PStr ?ts)))"
    by (simp only: set_map srt_set [OF assms(1)])
  then have d2: "set (map fst ?d) = PStr ` set ?ts"
    by (simp only: fst_scaled tally_str(2))
  have d3: "map_of ?d (PStr t) = Some (real (count_list ?ts t) / real (length ?ts))"
    if "t \<in> set ?ts" for t
    by (simp only: map_of_scaled map_of_srt [OF assms(1) tally_str(1)] map_of_tally_str [OF that])
       simp
  show ?thesis
    using flat_options_tokens [of fstr col] r d1 d2 d3 by blast
qed

section \<open>Filtering by a set of values\<close>

lemma select_nths: "select msk xs = nths xs {i. i < length msk \<and> msk ! i}"
proof (induction msk arbitrary: xs)
  case Nil
  then show ?case by (simp add: select_def)
next
  case (Cons b msk)
  show ?case
  proof (cases xs)
    case Nil
    then show ?thesis by (simp add: select_def)
  next
    case (Cons x xs')
    have "{j. Suc j \<in> {i. i < length (b # msk) \<and> (b # msk) ! i}} = {i. i < length msk \<and> msk ! i}"
      by auto
    then show ?thesis
      using Cons.IH [of xs'] Cons by (simp add: select_def nths_Cons)
  qed
qed

lemma isin_positions:
  "{i. i < length (isin xs vs) \<and> isin xs vs ! i}
     = {i. i < length xs \<and> (\<exists>s \<in> set vs. xs ! i = PStr s)}"
proof -
  have "(case x of PStr s \<Rightarrow> s \<in> set vs | _ \<Rightarrow> False) \<longleftrightarrow> (\<exists>s \<in> set vs. x = PStr s)" for x
    by (cases x) auto
  then show ?thesis
    by (auto simp: isin_def)
qed

lemma cells_col_select:
  "cells (col_select msk c) = nths (cells c) {i. i < length msk \<and> msk ! i}"
  by (cases c) (simp_all add: col_select_def select_nths nths_map)

lemma dtype_col_select: "dtype (col_select msk c) = dtype c"
  by (cases c) (simp_all add: col_select_def dtype_def)

text \<open>
  C1, as amended. For every table, column of the table and non-empty list of text values,
  \<open>filter_by_column\<close> returns exactly the rows whose cell in the column is one of these
  texts: the labels of these rows and, in every column, their cells, in the order of the
  table, with the names and the dtypes of the columns as they were. The match is that of
  the values, not of their rendered texts: a cell that is a number or is missing matches
  no text, so the numeric cell 25 does not match the text 25.
\<close>

theorem filter_by_column_rows:
  assumes "getitem df column = Some col" and "values_list \<noteq> []"
  shows "\<exists>r. filter_by_column df column values_list = Inr r
           \<and> idx r = nths (idx df) {i. i < length (cells col)
                                       \<and> (\<exists>s \<in> set values_list. cells col ! i = PStr s)}
           \<and> map fst (cols r) = map fst (cols df)
           \<and> (\<forall>j < length (cols df).
                 dtype (snd (cols r ! j)) = dtype (snd (cols df ! j))
                 \<and> cells (snd (cols r ! j))
                     = nths (cells (snd (cols df ! j)))
                         {i. i < length (cells col)
                             \<and> (\<exists>s \<in> set values_list. cells col ! i = PStr s)})"
proof -
  let ?msk = "isin (cells col) values_list"
  let ?r = "take_mask df ?msk"
  have r: "filter_by_column df column values_list = Inr ?r"
    using assms by (simp add: filter_by_column_def)
  have i: "idx ?r = nths (idx df) {i. i < length (cells col)
                                       \<and> (\<exists>s \<in> set values_list. cells col ! i = PStr s)}"
    by (simp add: take_mask_def select_nths isin_positions)
  have n: "map fst (cols ?r) = map fst (cols df)"
    by (simp add: take_mask_def case_prod_unfold comp_def)
  have c: "dtype (snd (cols ?r ! j)) = dtype (snd (cols df ! j))
           \<and> cells (snd (cols ?r ! j))
               = nths (cells (snd (cols df ! j)))
                   {i. i < length (cells col)
                       \<and> (\<exists>s \<in> set values_list. cells col ! i = PStr s)}"
    if "j < length (cols df)" for j
    using that
    by (simp add: take_mask_def case_prod_unfold dtype_col_select cells_col_select isin_positions)
  show ?thesis
    using r i n c by blast
qed

text \<open>
  The example of the docstring, where the rows 0, 2 and 3 keep their labels, and a table
  with a column of each dtype: the rows labelled 3 and 9 are returned, and the cell that
  is the number 7 does not match the text 7.
\<close>

lemma filter_docstring_example:
  "filter_by_column countries ''country'' [''USA'', ''UK'']
     = Inr \<lparr>idx = [0, 2, 3],
            cols = [(''country'', ObjCol [PStr ''USA'', PStr ''UK'', PStr ''USA'']),
                    (''age'', IntCol [25, 35, 40])]\<rparr>"
  by (simp add: filter_by_column_def getitem_def countries_def take_mask_def isin_def
      select_def col_select_def)

lemma filter_respondents:
  "filter_by_column respondents ''country'' [''UK'', ''7'', ''USA'']
     = Inr \<lparr>idx = [3, 9],
            cols = [(''country'', ObjCol [PStr ''USA'', PStr ''UK'']),
                    (''salary'', FloatCol [Some 1.5, Some 5.5]),
                    (''age'', IntCol [25, 40])]\<rparr>"
  by (simp add: filter_by_column_def getitem_def respondents_def take_mask_def isin_def
      select_def col_select_def)

theorem filter_by_column_rows_witness:
  "getitem respondents ''country'' = Some (ObjCol [PStr ''USA'', NA, PInt 7, PStr ''UK''])
   \<and> filter_by_column respondents ''country'' [''UK'', ''7'', ''USA'']
       = Inr \<lparr>idx = [3, 9],
              cols = [(''country'', ObjCol [PStr ''USA'', PStr ''UK'']),
                      (''salary'', FloatCol [Some 1.5, Some 5.5]),
                      (''age'', IntCol [25, 40])]\<rparr>
   \<and> filter_by_column countries ''country'' [''USA'', ''UK'']
       = Inr \<lparr>idx = [0, 2, 3],
              cols = [(''country'', ObjCol [PStr ''USA'', PStr ''UK'', PStr ''USA'']),
                      (''age'', IntCol [25, 35, 40])]\<rparr>
   \<and> (\<exists>r. filter_by_column respondents ''country'' [''UK'', ''7'', ''USA''] = Inr r
          \<and> idx r = nths (idx respondents)
                       {i. i < length (cells (ObjCol [PStr ''USA'', NA, PInt 7, PStr ''UK'']))
                           \<and> (\<exists>s \<in> set [''UK'', ''7'', ''USA''].
                                 cells (ObjCol [PStr ''USA'', NA, PInt 7, PStr ''UK'']) ! i = PStr s)})"
proof -
  have g: "getitem respondents ''country'' = Some (ObjCol [PStr ''USA'', NA, PInt 7, PStr ''UK''])"
    by (simp add: getitem_def respondents_def)
  have v: "[''UK'', ''7'', ''USA''] \<noteq> []"
    by simp
  from filter_by_column_rows [OF g v] g filter_respondents filter_docstring_example
  show ?thesis
    by blast
qed

text \<open>
  C1, as stated, matches the rendered text of a cell. The first cell of the column age is
  the number 25, its text is 25, and the list of values holds the text 25; the row is not
  returned.
\<close>

theorem rendered_text_counterexample:
  "getitem countries ''age'' = Some (IntCol [25, 30, 35, 40, 45])
   \<and> cells (IntCol [25, 30, 35, 40, 45]) ! 0 = PInt 25
   \<and> py_str (\<lambda>r. []) (PInt 25) = ''25''
   \<and> filter_by_column countries ''age'' [''25'']
       = Inr \<lparr>idx = [], cols = [(''country'', ObjCol []), (''age'', IntCol [])]\<rparr>"
  by (simp add: filter_by_column_def getitem_def countries_def take_mask_def isin_def
      select_def col_select_def str_int_def str_nat.simps digit_char_def)

section \<open>The multi-valued distribution\<close>

lemma test_tokens:
  "flat_options fstr (ObjCol [PStr ''A'', PStr ''B'', PStr ''A'', PStr ''C'', PStr ''A;B'', PStr ''B;C''])
     = [''A'', ''B'', ''A'', ''C'', ''A'', ''B'', ''B'', ''C'']"
  by (simp add: flat_options_def dropna_def strip_def isspace_def)

text \<open>
  C2. For every table, the multi-valued mode splits the rendered text of each cell that is
  not missing on the separator \<open>;\<close>, trims the white space around every piece, counts
  every resulting token as one observation, and gives each token its count divided by the
  number of all tokens emitted. For the rows A, B, A, C, A;B, B;C the result maps A to
  0.375, B to 0.375 and C to 0.25.
\<close>

theorem multi_valued_distribution:
  assumes "sorts_descending srt"
  shows "(getitem df question = Some col \<longrightarrow>
           (\<exists>toks d. tokens_of_column fstr col toks
              \<and> answer_distribution fstr srt df question True = Inr d
              \<and> distinct (map fst d)
              \<and> set (map fst d) = PStr ` set toks
              \<and> (\<forall>t \<in> set toks.
                    map_of d (PStr t) = Some (real (count_list toks t) / real (length toks)))))
       \<and> (\<exists>d. answer_distribution fstr srt test_survey ''Q1'' True = Inr d
              \<and> set (map fst d) = {PStr ''A'', PStr ''B'', PStr ''C''}
              \<and> map_of d (PStr ''A'') = Some 0.375
              \<and> map_of d (PStr ''B'') = Some 0.375
              \<and> map_of d (PStr ''C'') = Some 0.25)"
proof
  show "getitem df question = Some col \<longrightarrow>
           (\<exists>toks d. tokens_of_column fstr col toks
              \<and> answer_distribution fstr srt df question True = Inr d
              \<and> distinct (map fst d)
              \<and> set (map fst d) = PStr ` set toks
              \<and> (\<forall>t \<in> set toks.
                    map_of d (PStr t) = Some (real (count_list toks t) / real (length toks))))"
    using multi_valued_general [OF assms] by blast
next
  let ?col = "ObjCol [PStr ''A'', PStr ''B'', PStr ''A'', PStr ''C'', PStr ''A;B'', PStr ''B;C'']"
  let ?ts = "flat_options fstr ?col"
  let ?d = "map (\<lambda>(k, c). (k, real c / real (length ?ts))) (srt (tally (map PStr ?ts)))"
  have g: "getitem test_survey ''Q1'' = Some ?col"
    by (simp add: getitem_def test_survey_def)
  have r: "answer_distribution fstr srt test_survey ''Q1'' True = Inr ?d"
    using multiple_choice_result [OF assms g] by simp
  have "set (map fst (srt (tally (map PStr ?ts)))) = set (map fst (tally (map PStr ?ts)))"
    by (simp only: set_map srt_set [OF assms])
  then have "set (map fst ?d) = PStr ` set ?ts"
    by (simp only: fst_scaled tally_str(2))
  then have k: "set (map fst ?d) = {PStr ''A'', PStr ''B'', PStr ''C''}"
    by (simp only: test_tokens) auto
  have m: "map_of ?d (PStr t) = Some (real (count_list ?ts t) / real (length ?ts))"
    if "t \<in> set ?ts" for t
    by (simp only: map_of_scaled map_of_srt [OF assms tally_str(1)] map_of_tally_str [OF that])
       simp
  have "map_of ?d (PStr ''A'') = Some 0.375"
    using m [of "''A''"] by (simp add: test_tokens)
  moreover have "map_of ?d (PStr ''B'') = Some 0.375"
    using m [of "''B''"] by (simp add: test_tokens)
  moreover have "map_of ?d (PStr ''C'') = Some 0.25"
    using m [of "''C''"] by (simp add: test_tokens)
  ultimately show "\<exists>d. answer_distribution fstr srt test_survey ''Q1'' True = Inr d
              \<and> set (map fst d) = {PStr ''A'', PStr ''B'', PStr ''C''}
              \<and> map_of d (PStr ''A'') = Some 0.375
              \<and> map_of d (PStr ''B'') = Some 0.375
              \<and> map_of d (PStr ''C'') = Some 0.25"
    using r k by blast
qed

text \<open>
  The table of the test with the stable sort, and a column whose answers have white space
  around them (a space, a tabulator, a no-break space, a next-line character) and a
  missing cell: the tokens are A, B, B, A, C.
\<close>

lemma spaced_result:
  "answer_distribution (\<lambda>r. []) sort_stable spaced ''Q'' True
     = Inr [(PStr ''A'', 2 / 5), (PStr ''B'', 2 / 5), (PStr ''C'', 1 / 5)]"
  by (simp add: spaced_def answer_distribution_def getitem_def value_counts_def
      dropna_def tally_def sort_stable_def share_def flat_options_def strip_def isspace_def)

theorem multi_valued_distribution_witness:
  "sorts_descending sort_stable
   \<and> getitem test_survey ''Q1''
       = Some (ObjCol [PStr ''A'', PStr ''B'', PStr ''A'', PStr ''C'', PStr ''A;B'', PStr ''B;C''])
   \<and> (\<exists>d. answer_distribution (\<lambda>r. []) sort_stable test_survey ''Q1'' True = Inr d
          \<and> set (map fst d) = {PStr ''A'', PStr ''B'', PStr ''C''}
          \<and> map_of d (PStr ''A'') = Some 0.375
          \<and> map_of d (PStr ''B'') = Some 0.375
          \<and> map_of d (PStr ''C'') = Some 0.25)
   \<and> answer_distribution (\<lambda>r. []) sort_stable spaced ''Q'' True
       = Inr [(PStr ''A'', 2 / 5), (PStr ''B'', 2 / 5), (PStr ''C'', 1 / 5)]"
proof -
  have h: "sorts_descending sort_stable"
    by (rule sorts_descending_stable)
  have g: "getitem test_survey ''Q1''
       = Some (ObjCol [PStr ''A'', PStr ''B'', PStr ''A'', PStr ''C'', PStr ''A;B'', PStr ''B;C''])"
    by (simp add: getitem_def test_survey_def)
  from multi_valued_distribution [OF h] h g spaced_result show ?thesis
    by blast
qed

text \<open>
  The same table in the exact order of the stable sort, the single-valued mode on the
  second question of the test, and on a column where the integer 1, the float 1.0 and the
  text 1 occur: the two numbers are one key, the text is another.
\<close>

lemma test_survey_stable_result:
  "answer_distribution (\<lambda>r. []) sort_stable test_survey ''Q1'' True
     = Inr [(PStr ''A'', 3 / 8), (PStr ''B'', 3 / 8), (PStr ''C'', 1 / 4)]"
  by (simp add: test_survey_def answer_distribution_def getitem_def value_counts_def
      dropna_def tally_def sort_stable_def share_def flat_options_def strip_def isspace_def)

lemma single_valued_test:
  "answer_distribution (\<lambda>r. []) sort_stable test_survey ''Q2'' False
     = Inr [(PStr ''Yes'', 1 / 2), (PStr ''No'', 1 / 2)]"
  by (simp add: test_survey_def answer_distribution_def getitem_def value_counts_def
      dropna_def tally_def sort_stable_def share_def)

lemma single_valued_numbers:
  "answer_distribution (\<lambda>r. []) sort_stable
     \<lparr>idx = [0, 1, 2, 3, 4, 5],
        cols = [(''n'', ObjCol [PInt 1, PFloat 1, PStr ''1'', NA, PInt 2, PInt 1])]\<rparr> ''n'' False
     = Inr [(PInt 1, 3 / 5), (PStr ''1'', 1 / 5), (PInt 2, 1 / 5)]"
  by (simp add: answer_distribution_def getitem_def value_counts_def
      dropna_def tally_def sort_stable_def share_def)

section \<open>Filtering by a range\<close>

lemma py_cmp_error: "py_cmp op b x = Inl e \<Longrightarrow> e = TypeError"
  by (induction op b x rule: py_cmp.induct) simp_all

lemma cmp_cells_error:
  "\<exists>x \<in> set xs. py_cmp op b x = Inl TypeError \<Longrightarrow> cmp_cells op b xs = Inl TypeError"
proof (induction xs)
  case Nil
  then show ?case by simp
next
  case (Cons x xs)
  show ?case
  proof (cases "py_cmp op b x")
    case (Inl e)
    then show ?thesis
      using py_cmp_error [OF Inl] by simp
  next
    case (Inr v)
    then have "\<exists>x \<in> set xs. py_cmp op b x = Inl TypeError"
      using Cons.prems by auto
    then show ?thesis
      using Cons.IH Inr by simp
  qed
qed

lemma non_orderable_cmp:
  assumes "non_orderable col" and "b \<noteq> BNaN"
  shows "cmp_col op col b = Inl TypeError"
proof -
  obtain t where t: "t \<in> set (cells col)" "is_text t"
    using assms(1) by (auto simp: non_orderable_def list_ex_iff)
  obtain n where n: "n \<in> set (cells col)" "is_num n"
    using assms(1) by (auto simp: non_orderable_def list_ex_iff)
  have o: "\<not> is_number col"
    using t by (cases col) (auto split: option.splits)
  have "\<exists>x \<in> set (cells col). py_cmp op b x = Inl TypeError"
  proof (cases b)
    case (BNum r)
    have "py_cmp op b t = Inl TypeError"
      using t(2) BNum by (cases t; cases op) simp_all
    then show ?thesis
      using t(1) by blast
  next
    case (BStr s)
    have "py_cmp op b n = Inl TypeError"
      using n(2) BStr by (cases n; cases op) simp_all
    then show ?thesis
      using n(1) by blast
  next
    case BNaN
    then show ?thesis
      using assms(2) by simp
  qed
  then have "cmp_cells op b (cells col) = Inl TypeError"
    by (rule cmp_cells_error)
  then show ?thesis
    using o assms(2) by (cases b) (simp_all add: cmp_col_def)
qed

text \<open>
  C3, as amended. For every table and every column of it whose values cannot be ordered,
  \<open>filter_by_value_range\<close> fails with the TypeError of Python, which is the TypeMismatch
  of the specification, and returns no table, whenever the bound that it applies first
  (the lower bound when there is one, the upper bound otherwise) is a number or a text.
  A NaN bound is compared with no cell; it selects no row and raises nothing.
\<close>

theorem range_filter_type_error:
  assumes "getitem df column = Some col" and "non_orderable col"
    and "first_bound min_value max_value = Some b" and "b \<noteq> BNaN"
  shows "filter_by_value_range df column min_value max_value = Inl TypeError"
proof (cases min_value)
  case None
  then have "max_value = Some b"
    using assms(3) by (simp add: first_bound_def)
  then show ?thesis
    using None assms(1) non_orderable_cmp [OF assms(2) assms(4)]
    by (simp add: filter_by_value_range_def filter_cmp_def)
next
  case (Some b')
  then have "b' = b"
    using assms(3) by (simp add: first_bound_def)
  then show ?thesis
    using Some assms(1) non_orderable_cmp [OF assms(2) assms(4)]
    by (simp add: filter_by_value_range_def filter_cmp_def)
qed

text \<open>
  A column of answers that holds a number and a text, with a lower bound, with an upper
  bound only, and with a text as the bound.
\<close>

theorem range_filter_type_error_witness:
  "getitem \<lparr>idx = [0, 1, 2], cols = [(''answer'', ObjCol [PInt 3, PStr ''many'', NA])]\<rparr> ''answer''
     = Some (ObjCol [PInt 3, PStr ''many'', NA])
   \<and> non_orderable (ObjCol [PInt 3, PStr ''many'', NA])
   \<and> first_bound (Some (BNum 1)) None = Some (BNum 1)
   \<and> first_bound None (Some (BStr ''a'')) = Some (BStr ''a'')
   \<and> filter_by_value_range
        \<lparr>idx = [0, 1, 2], cols = [(''answer'', ObjCol [PInt 3, PStr ''many'', NA])]\<rparr> ''answer''
        (Some (BNum 1)) None = Inl TypeError
   \<and> filter_by_value_range
        \<lparr>idx = [0, 1, 2], cols = [(''answer'', ObjCol [PInt 3, PStr ''many'', NA])]\<rparr> ''answer''
        None (Some (BStr ''a'')) = Inl TypeError"
proof -
  have g: "getitem \<lparr>idx = [0, 1, 2], cols = [(''answer'', ObjCol [PInt 3, PStr ''many'', NA])]\<rparr>
             ''answer'' = Some (ObjCol [PInt 3, PStr ''many'', NA])"
    by (simp add: getitem_def)
  have n: "non_orderable (ObjCol [PInt 3, PStr ''many'', NA])"
    by (simp add: non_orderable_def)
  have b1: "first_bound (Some (BNum 1)) None = Some (BNum 1)"
    by (simp add: first_bound_def)
  have b2: "first_bound None (Some (BStr ''a'')) = Some (BStr ''a'')"
    by (simp add: first_bound_def)
  have d1: "BNum 1 \<noteq> BNaN"
    by simp
  have d2: "BStr ''a'' \<noteq> BNaN"
    by simp
  from range_filter_type_error [OF g n b1 d1] range_filter_type_error [OF g n b2 d2] g n b1 b2
  show ?thesis
    by blast
qed

text \<open>
  C3, as stated, asks for the failure with every bound that is present. On the same
  column, which holds a number and a text, the bound NaN is present, and the result is a
  table without rows, not a failure; so it is with NaN as the lower bound and a number as
  the upper bound.
\<close>

theorem nan_bound_counterexample:
  "non_orderable (ObjCol [PInt 3, PStr ''many'', NA])
   \<and> filter_by_value_range
        \<lparr>idx = [0, 1, 2], cols = [(''answer'', ObjCol [PInt 3, PStr ''many'', NA])]\<rparr> ''answer''
        (Some BNaN) None
       = Inr \<lparr>idx = [], cols = [(''answer'', ObjCol [])]\<rparr>
   \<and> filter_by_value_range
        \<lparr>idx = [0, 1, 2], cols = [(''answer'', ObjCol [PInt 3, PStr ''many'', NA])]\<rparr> ''answer''
        (Some BNaN) (Some (BNum 5))
       = Inr \<lparr>idx = [], cols = [(''answer'', ObjCol [])]\<rparr>"
  by (simp add: non_orderable_def filter_by_value_range_def filter_cmp_def getitem_def cmp_col_def
      take_mask_def select_def col_select_def)

text \<open>
  The example of the docstring, where the column can be ordered, a float column with a
  missing cell, and a text bound on a numeric column.
\<close>

lemma range_example:
  "filter_by_value_range countries ''age'' (Some (BNum 30)) (Some (BNum 40))
     = Inr \<lparr>idx = [1, 2, 3],
            cols = [(''country'', ObjCol [PStr ''Canada'', PStr ''UK'', PStr ''USA'']),
                    (''age'', IntCol [30, 35, 40])]\<rparr>"
  by (simp add: filter_by_value_range_def filter_cmp_def getitem_def countries_def cmp_col_def
      take_mask_def select_def col_select_def)

lemma range_float_example:
  "filter_by_value_range respondents ''salary'' None (Some (BNum 4))
     = Inr \<lparr>idx = [3, 8],
            cols = [(''country'', ObjCol [PStr ''USA'', PInt 7]),
                    (''salary'', FloatCol [Some 1.5, Some 3.5]),
                    (''age'', IntCol [25, 35])]\<rparr>"
  by (simp add: filter_by_value_range_def filter_cmp_def getitem_def respondents_def cmp_col_def
      take_mask_def select_def col_select_def)

lemma range_text_bound_on_numbers:
  "filter_by_value_range countries ''age'' (Some (BStr ''30'')) None = Inl TypeError"
  by (simp add: filter_by_value_range_def filter_cmp_def getitem_def countries_def cmp_col_def)

lemma range_text_example:
  "filter_by_value_range countries ''country'' (Some (BStr ''UK'')) None
     = Inr \<lparr>idx = [0, 2, 3],
            cols = [(''country'', ObjCol [PStr ''USA'', PStr ''UK'', PStr ''USA'']),
                    (''age'', IntCol [25, 35, 40])]\<rparr>"
  by (simp add: filter_by_value_range_def filter_cmp_def getitem_def countries_def cmp_col_def
      take_mask_def select_def col_select_def)

section \<open>Descriptive statistics\<close>

lemma model_summary:
  "[count xs, mean xs, median xs, std xs, minimum xs, maximum xs] = summary xs"
proof -
  have mn: "minimum xs = (if xs = [] then None else Some (Min (set xs)))"
  proof (cases xs)
    case Nil
    then show ?thesis by (simp add: minimum_def)
  next
    case (Cons a rest)
    have "fold min rest a = Min (set (a # rest))"
      by (rule Min.set_eq_fold [symmetric])
    then show ?thesis
      using Cons by (simp add: minimum_def)
  qed
  have mx: "maximum xs = (if xs = [] then None else Some (Max (set xs)))"
  proof (cases xs)
    case Nil
    then show ?thesis by (simp add: maximum_def)
  next
    case (Cons a rest)
    have "fold max rest a = Max (set (a # rest))"
      by (rule Max.set_eq_fold [symmetric])
    then show ?thesis
      using Cons by (simp add: maximum_def)
  qed
  have md: "median xs = (if xs = [] then None
      else Some (if even (length xs)
                 then (sort xs ! (length xs div 2 - 1) + sort xs ! (length xs div 2)) / 2
                 else sort xs ! (length xs div 2)))"
    by (simp add: median_def Let_def even_iff_mod_2_eq_zero)
  have sd: "std xs = (if length xs < 2 then None
      else Some (sqrt ((\<Sum>x\<leftarrow>xs. (x - sum_list xs / real (length xs))\<^sup>2)
                        / (real (length xs) - 1))))"
  proof (cases "length xs < 2")
    case True
    then show ?thesis by (simp add: std_def)
  next
    case False
    then have "real (length xs - 1) = real (length xs) - 1"
      by (simp add: of_nat_diff)
    then show ?thesis
      using False by (simp add: std_def Let_def power2_commute)
  qed
  show ?thesis
    by (simp only: mn mx md sd summary_def count_def mean_def)
qed

lemma transpose_stats:
  "transpose_frame
     \<lparr>f_index = map fst ncs,
      f_cols = [(''count'', map (\<lambda>(n, c). count (present c)) ncs),
                (''mean'', map (\<lambda>(n, c). mean (present c)) ncs),
                (''median'', map (\<lambda>(n, c). median (present c)) ncs),
                (''std'', map (\<lambda>(n, c). std (present c)) ncs),
                (''min'', map (\<lambda>(n, c). minimum (present c)) ncs),
                (''max'', map (\<lambda>(n, c). maximum (present c)) ncs)]\<rparr>
   = \<lparr>f_index = stat_names,
      f_cols = map (\<lambda>(n, c). (n, [count (present c), mean (present c), median (present c),
                                   std (present c), minimum (present c), maximum (present c)]))
                 ncs\<rparr>"
proof -
  have "map (\<lambda>(j, label).
               (label, [map (\<lambda>(n, c). count (present c)) ncs ! j,
                        map (\<lambda>(n, c). mean (present c)) ncs ! j,
                        map (\<lambda>(n, c). median (present c)) ncs ! j,
                        map (\<lambda>(n, c). std (present c)) ncs ! j,
                        map (\<lambda>(n, c). minimum (present c)) ncs ! j,
                        map (\<lambda>(n, c). maximum (present c)) ncs ! j]))
          (zip [0..<length ncs] (map fst ncs))
        = map (\<lambda>(n, c). (n, [count (present c), mean (present c), median (present c),
                              std (present c), minimum (present c), maximum (present c)])) ncs"
    by (rule nth_equalityI) (simp_all add: case_prod_unfold)
  then show ?thesis
    by (simp add: transpose_frame_def stat_names_def)
qed

lemma present_non_missing: "is_number c \<Longrightarrow> present c = non_missing c"
proof (cases c)
  case (IntCol xs)
  then show ?thesis
    by (induction xs arbitrary: c) (simp_all add: non_missing_def List.map_filter_simps)
next
  case (FloatCol xs)
  have "List.map_filter (\<lambda>x. x) xs
          = List.map_filter number_of (map (\<lambda>x. case x of None \<Rightarrow> NA | Some r \<Rightarrow> PFloat r) xs)"
    by (induction xs) (simp_all add: List.map_filter_simps split: option.splits)
  then show ?thesis
    using FloatCol by (simp add: non_missing_def)
next
  case (ObjCol xs)
  assume "is_number c"
  then show ?thesis
    using ObjCol by simp
qed

lemma is_number_numeric: "is_number c \<longleftrightarrow> numeric c"
  by (cases c) (simp_all add: numeric_def dtype_def)

lemma summaries_non_missing:
  "map (\<lambda>(n, c). (n, summary (present c))) (filter (\<lambda>(n, c). is_number c) ncs)
     = map (\<lambda>(n, c). (n, summary (non_missing c))) (filter (\<lambda>(n, c). numeric c) ncs)"
  by (induction ncs) (auto simp: present_non_missing is_number_numeric)

lemma describe_table: "describe df None = Inr (stats_of (cols df))"
proof -
  have "describe df None
          = Inr \<lparr>f_index = stat_names,
                 f_cols = map (\<lambda>(n, c). (n, summary (present c)))
                            (filter (\<lambda>(n, c). is_number c) (cols df))\<rparr>"
    by (simp add: describe_def select_dtypes_number_def reduce_all_def columns_def Let_def
        transpose_stats model_summary)
  then show ?thesis
    by (simp only: summaries_non_missing stats_of_def)
qed


lemma getitem_list_present:
  assumes "list_all (\<lambda>c. c \<in> set (columns df)) cs"
  shows "getitem_list df cs = Inr \<lparr>idx = idx df, cols = map (\<lambda>c. (c, the (getitem df c))) cs\<rparr>"
proof -
  have "List.map_filter (\<lambda>c. map_option (Pair c) (getitem df c)) cs
          = map (\<lambda>c. (c, the (getitem df c))) cs"
    using assms
  proof (induction cs)
    case Nil
    then show ?case by (simp add: List.map_filter_simps)
  next
    case (Cons c cs)
    then have "c \<in> fst ` set (cols df)"
      by (simp add: columns_def)
    then obtain col where "getitem df c = Some col"
      unfolding getitem_def by (metis map_of_eq_None_iff not_Some_eq)
    then show ?case
      using Cons by (simp add: List.map_filter_simps)
  qed
  then show ?thesis
    using assms by (simp add: getitem_list_def)
qed

text \<open>
  C5. For every table, \<open>describe\<close> returns a table of statistics with exactly one row
  for each statistic, in the order count, mean, median, std, min, max, and one column for
  each numeric column of the input (of the included columns, when a list of present
  columns is given). Each statistic is computed over the values that are not missing; the
  median averages the two middle values when their number is even, and std is the sample
  standard deviation, which divides by the number less one. Columns that are not numeric
  are dropped without an error, and when no numeric column remains the table of
  statistics has no column.
\<close>

theorem describe_statistics:
  "describe df None = Inr (stats_of (cols df))
   \<and> (list_all (\<lambda>c. c \<in> set (columns df)) cs \<longrightarrow>
        describe df (Some cs) = Inr (stats_of (map (\<lambda>c. (c, the (getitem df c))) cs)))
   \<and> (\<not> list_ex (\<lambda>(n, c). numeric c) (cols df) \<longrightarrow>
        describe df None = Inr \<lparr>f_index = stat_names, f_cols = []\<rparr>)"
proof (intro conjI impI)
  show "describe df None = Inr (stats_of (cols df))"
    by (rule describe_table)
next
  assume a: "list_all (\<lambda>c. c \<in> set (columns df)) cs"
  have "describe df (Some cs)
          = describe \<lparr>idx = idx df, cols = map (\<lambda>c. (c, the (getitem df c))) cs\<rparr> None"
    by (simp add: describe_def getitem_list_present [OF a])
  then show "describe df (Some cs) = Inr (stats_of (map (\<lambda>c. (c, the (getitem df c))) cs))"
    by (simp add: describe_table)
next
  assume "\<not> list_ex (\<lambda>(n, c). numeric c) (cols df)"
  then have "filter (\<lambda>(n, c). numeric c) (cols df) = []"
    by (simp add: list_ex_iff filter_empty_conv)
  then show "describe df None = Inr \<lparr>f_index = stat_names, f_cols = []\<rparr>"
    by (simp add: describe_table stats_of_def)
qed

lemma summary_age:
  "summary [25, 30, 35, 40, 45] = [Some 5, Some 35, Some 35, Some (sqrt (125 / 2)), Some 25, Some 45]"
  by (simp add: summary_def)

lemma summary_years:
  "summary [1, 5, 10, 15, 20] = [Some 5, Some 10.2, Some 10, Some (sqrt (577 / 10)), Some 1, Some 20]"
  by (simp add: summary_def power2_eq_square)


text \<open>
  The values that are present in the columns of a table with a column of each dtype: the
  missing cell of the float column is left out, and so are the cells of a column of the
  object dtype that are not numbers.
\<close>

lemma non_missing_examples:
  "non_missing (FloatCol [Some 1.5, None, Some 3.5, Some 5.5]) = [1.5, 3.5, 5.5]"
  "non_missing (IntCol [25, 30, 35, 40]) = [25, 30, 35, 40]"
  "non_missing (ObjCol [PStr ''USA'', NA, PInt 7, PStr ''UK'']) = [7]"
  by (simp_all add: non_missing_def List.map_filter_simps)

lemma summary_salary:
  "summary [1.5, 3.5, 5.5] = [Some 3, Some 3.5, Some 3.5, Some 2, Some 1.5, Some 5.5]"
  by (simp add: summary_def power2_eq_square)

lemma summary_ages:
  "summary [25, 30, 35, 40] = [Some 4, Some 32.5, Some 32.5, Some (sqrt (125 / 3)), Some 25, Some 40]"
  by (simp add: summary_def power2_eq_square)

lemma describe_respondents:
  "describe respondents None
     = Inr \<lparr>f_index = [''count'', ''mean'', ''median'', ''std'', ''min'', ''max''],
            f_cols = [(''salary'', [Some 3, Some 3.5, Some 3.5, Some 2, Some 1.5, Some 5.5]),
                      (''age'', [Some 4, Some 32.5, Some 32.5, Some (sqrt (125 / 3)), Some 25,
                                Some 40])]\<rparr>"
  by (simp add: describe_def respondents_def select_dtypes_number_def reduce_all_def columns_def
      transpose_frame_def count_def mean_def median_def std_def minimum_def maximum_def
      List.map_filter_simps power2_eq_square)

text \<open>
  The example of the docstring, its restriction to one column, the table with a column of
  each dtype and a missing cell, where the column of the object dtype is dropped and the
  missing cell is not counted, and the table of the test, which has no numeric column.
\<close>

theorem describe_statistics_witness:
  "list_all (\<lambda>c. c \<in> set (columns coders)) [''age'']
   \<and> \<not> list_ex (\<lambda>(n, c). numeric c) (cols test_survey)
   \<and> describe coders None
       = Inr \<lparr>f_index = [''count'', ''mean'', ''median'', ''std'', ''min'', ''max''],
              f_cols = [(''age'', [Some 5, Some 35, Some 35, Some (sqrt (125 / 2)), Some 25, Some 45]),
                        (''years_coding'',
                         [Some 5, Some 10.2, Some 10, Some (sqrt (577 / 10)), Some 1, Some 20])]\<rparr>
   \<and> describe coders (Some [''age''])
       = Inr \<lparr>f_index = [''count'', ''mean'', ''median'', ''std'', ''min'', ''max''],
              f_cols = [(''age'', [Some 5, Some 35, Some 35, Some (sqrt (125 / 2)), Some 25, Some 45])]\<rparr>
   \<and> describe respondents None
       = Inr \<lparr>f_index = [''count'', ''mean'', ''median'', ''std'', ''min'', ''max''],
              f_cols = [(''salary'', [Some 3, Some 3.5, Some 3.5, Some 2, Some 1.5, Some 5.5]),
                        (''age'', [Some 4, Some 32.5, Some 32.5, Some (sqrt (125 / 3)), Some 25,
                                  Some 40])]\<rparr>
   \<and> describe test_survey None
       = Inr \<lparr>f_index = [''count'', ''mean'', ''median'', ''std'', ''min'', ''max''], f_cols = []\<rparr>"
proof -
  have a: "list_all (\<lambda>c. c \<in> set (columns coders)) [''age'']"
    by (simp add: columns_def coders_def)
  have n: "\<not> list_ex (\<lambda>(n, c). numeric c) (cols test_survey)"
    by (simp add: test_survey_def numeric_def dtype_def)
  have m: "non_missing (IntCol [25, 30, 35, 40, 45]) = [25, 30, 35, 40, 45]"
      "non_missing (IntCol [1, 5, 10, 15, 20]) = [1, 5, 10, 15, 20]"
    by (simp_all add: non_missing_def List.map_filter_simps)
  have e1: "stats_of (cols coders)
       = \<lparr>f_index = [''count'', ''mean'', ''median'', ''std'', ''min'', ''max''],
              f_cols = [(''age'', [Some 5, Some 35, Some 35, Some (sqrt (125 / 2)), Some 25, Some 45]),
                        (''years_coding'',
                         [Some 5, Some 10.2, Some 10, Some (sqrt (577 / 10)), Some 1, Some 20])]\<rparr>"
    by (simp add: coders_def stats_of_def stat_names_def numeric_def dtype_def m
        summary_age summary_years)
  have e2: "stats_of (map (\<lambda>c. (c, the (getitem coders c))) [''age''])
       = \<lparr>f_index = [''count'', ''mean'', ''median'', ''std'', ''min'', ''max''],
              f_cols = [(''age'', [Some 5, Some 35, Some 35, Some (sqrt (125 / 2)), Some 25, Some 45])]\<rparr>"
    by (simp add: coders_def getitem_def stats_of_def stat_names_def numeric_def dtype_def m
        summary_age)
  have e3: "stats_of (cols respondents)
       = \<lparr>f_index = [''count'', ''mean'', ''median'', ''std'', ''min'', ''max''],
              f_cols = [(''salary'', [Some 3, Some 3.5, Some 3.5, Some 2, Some 1.5, Some 5.5]),
                        (''age'', [Some 4, Some 32.5, Some 32.5, Some (sqrt (125 / 3)), Some 25,
                                  Some 40])]\<rparr>"
    by (simp add: respondents_def stats_of_def stat_names_def numeric_def dtype_def
        non_missing_def List.map_filter_simps summary_def power2_eq_square)
  have s: "stat_names = [''count'', ''mean'', ''median'', ''std'', ''min'', ''max'']"
    by (simp add: stat_names_def)
  have t1: "describe coders None = Inr (stats_of (cols coders))"
    using describe_statistics [of coders "[]"] by blast
  have t2: "describe coders (Some [''age''])
              = Inr (stats_of (map (\<lambda>c. (c, the (getitem coders c))) [''age'']))"
    using describe_statistics [of coders "[''age'']"] a by blast
  have t3: "describe respondents None = Inr (stats_of (cols respondents))"
    using describe_statistics [of respondents "[]"] by blast
  have t4: "describe test_survey None = Inr \<lparr>f_index = stat_names, f_cols = []\<rparr>"
    using describe_statistics [of test_survey "[]"] n by blast
  show ?thesis
    using a n t1 t2 t3 t4 unfolding e1 e2 e3 s by blast
qed

section \<open>Statistics of unknown columns\<close>

text \<open>
  C6. For every table and every list of columns to include that names a column the table
  does not have, \<open>describe\<close> fails with the KeyError of the selection, which is the
  ColumnNotFound of the specification: the failure is the whole result, no statistic is
  computed, and the unknown column is reported, not dropped.
\<close>

theorem describe_unknown_column:
  assumes "\<exists>c \<in> set include. c \<notin> set (columns df)"
  shows "describe df (Some include)
           = Inl (LabelsNotInIndex (filter (\<lambda>c. c \<notin> set (columns df)) include))"
proof -
  have "\<not> list_all (\<lambda>c. c \<in> set (columns df)) include"
    using assms by (simp add: list_all_iff)
  then show ?thesis
    by (simp add: describe_def getitem_list_def)
qed

theorem describe_unknown_column_witness:
  "(\<exists>c \<in> set [''age'', ''salary'']. c \<notin> set (columns countries))
   \<and> describe countries (Some [''age'', ''salary'']) = Inl (LabelsNotInIndex [''salary''])"
proof -
  have h: "\<exists>c \<in> set [''age'', ''salary'']. c \<notin> set (columns countries)"
    by (simp add: columns_def countries_def)
  from describe_unknown_column [OF h] h show ?thesis
    by (simp add: columns_def countries_def)
qed

section \<open>Missing columns\<close>

text \<open>
  C7. For every table and every column name that the table does not have, the
  distribution is the empty mapping in both modes, and no error is raised.
\<close>

theorem answer_distribution_absent_column:
  "question \<notin> set (columns df) \<Longrightarrow> answer_distribution fstr srt df question mc = Inr []"
proof -
  assume "question \<notin> set (columns df)"
  then have "map_of (cols df) question = None"
    by (simp add: columns_def map_of_eq_None_iff)
  then show ?thesis
    by (simp add: answer_distribution_def getitem_def)
qed

theorem answer_distribution_absent_column_witness:
  "''Q3'' \<notin> set (columns \<lparr>idx = [0, 1], cols = [(''Q1'', ObjCol [PStr ''A'', PStr ''B''])]\<rparr>)
   \<and> answer_distribution (\<lambda>r. []) sort_stable
        \<lparr>idx = [0, 1], cols = [(''Q1'', ObjCol [PStr ''A'', PStr ''B''])]\<rparr> ''Q3'' True = Inr []
   \<and> answer_distribution (\<lambda>r. []) sort_stable
        \<lparr>idx = [0, 1], cols = [(''Q1'', ObjCol [PStr ''A'', PStr ''B''])]\<rparr> ''Q3'' False = Inr []"
  using answer_distribution_absent_column
    [of "''Q3''" "\<lparr>idx = [0, 1], cols = [(''Q1'', ObjCol [PStr ''A'', PStr ''B''])]\<rparr>" "\<lambda>r. []" sort_stable]
  by (simp add: columns_def)
section \<open>Replacing the current table\<close>

lemma confirm_state:
  "fst (confirm s inp shown prompt done failed candidate)
     = (if affirms inp then s\<lparr>current_df := Some candidate\<rparr> else s)"
  by (cases inp) (simp_all add: confirm_def affirms_def)

lemma do_filter_state:
  "\<not> affirms inp \<Longrightarrow> fst (do_filter e s args inp) = s"
  by (simp add: do_filter_def confirm_state split: option.splits sum.splits prod.splits)

lemma do_query_state:
  "\<not> affirms inp \<Longrightarrow> fst (do_query e s args inp) = s"
  by (simp add: do_query_def confirm_state split: option.splits sum.splits)

lemma declines_not_affirms: "declines inp \<Longrightarrow> \<not> affirms inp"
  by (cases inp) (simp_all add: declines_def affirms_def)

text \<open>
  C8. For every session with a dataset loaded, a \<open>filter\<close> or \<open>query\<close> command whose
  question is answered with anything but \<open>y\<close> or \<open>yes\<close> leaves the session, and so its
  current table, exactly as it was before the command; the session changes only when the
  answer is affirmative.
\<close>

theorem declined_replacement:
  assumes "current_df s = Some df"
  shows "(declines inp \<longrightarrow>
            fst (do_filter e s args inp) = s \<and> fst (do_query e s args inp) = s
            \<and> current_df (fst (do_filter e s args inp)) = Some df
            \<and> current_df (fst (do_query e s args inp)) = Some df)
       \<and> (fst (do_filter e s args inp) \<noteq> s \<longrightarrow> affirms inp)
       \<and> (fst (do_query e s args inp) \<noteq> s \<longrightarrow> affirms inp)"
  using assms do_filter_state [of inp e s args] do_query_state [of inp e s args]
    declines_not_affirms [of inp]
  by auto

text \<open>
  A filter and a query that compute their candidate, show it and are declined; the same
  filter, accepted.
\<close>

lemma filter_declined:
  "do_filter bound_env loaded ''country USA'' [''n'']
     = (loaded, [],
        [Text ''Filtered dataset: 2 rows (from 5)'',
         Text (CHR 0x0A # ''Preview of filtered data:''),
         Table \<lparr>idx = [0, 3],
                cols = [(''country'', ObjCol [PStr ''USA'', PStr ''USA'']), (''age'', IntCol [25, 40])]\<rparr>,
         Prompt (CHR 0x0A # ''Replace current dataset with filtered data? (y/N): '')])"
  by (simp add: do_filter_def bound_env_def loaded_def countries_def columns_def confirm_def
      filter_by_column_call_def filter_by_column_warning_def filter_by_column_def getitem_def
      isin_def take_mask_def select_def col_select_def nrows_def str_nat.simps digit_char_def
      head_def rows_app_def lower_def lower_char_def)

lemma filter_accepted:
  "fst (do_filter bound_env loaded ''country USA'' [''Y''])
     = loaded\<lparr>current_df :=
          Some \<lparr>idx = [0, 3],
                cols = [(''country'', ObjCol [PStr ''USA'', PStr ''USA'']), (''age'', IntCol [25, 40])]\<rparr>\<rparr>"
  by (simp add: do_filter_def bound_env_def loaded_def countries_def columns_def confirm_def
      filter_by_column_call_def filter_by_column_warning_def filter_by_column_def getitem_def
      isin_def take_mask_def select_def col_select_def nrows_def str_nat.simps digit_char_def
      head_def rows_app_def lower_def lower_char_def)

lemma query_declined:
  "do_query bound_env loaded ''age < 35'' [''no'']
     = (loaded, [],
        [Text ''Query result: 2 rows'',
         Text (CHR 0x0A # ''Preview:''),
         Table \<lparr>idx = [0, 1],
                cols = [(''country'', ObjCol [PStr ''USA'', PStr ''Canada'']), (''age'', IntCol [25, 30])]\<rparr>,
         Prompt (CHR 0x0A # ''Replace current dataset with query result? (y/N): '')])"
  by (simp add: do_query_def bound_env_def loaded_def countries_def confirm_def
      strip_def isspace_def nrows_def str_nat.simps digit_char_def
      head_def rows_app_def lower_def lower_char_def)

theorem declined_replacement_witness:
  "current_df loaded = Some countries
   \<and> declines [''n'']
   \<and> fst (do_filter bound_env loaded ''country USA'' [''n'']) = loaded
   \<and> fst (do_query bound_env loaded ''age < 35'' [''n'']) = loaded
   \<and> current_df (fst (do_filter bound_env loaded ''country USA'' [''n''])) = Some countries
   \<and> current_df (fst (do_query bound_env loaded ''age < 35'' [''n''])) = Some countries
   \<and> fst (do_filter bound_env loaded ''country USA'' [''Y'']) \<noteq> loaded
   \<and> affirms [''Y'']"
proof -
  have l: "current_df loaded = Some countries"
    by (simp add: loaded_def)
  have d: "declines [''n'']"
    by (simp add: declines_def lower_def lower_char_def)
  have c: "fst (do_filter bound_env loaded ''country USA'' [''Y'']) \<noteq> loaded"
    unfolding filter_accepted by (simp add: loaded_def countries_def)
  from declined_replacement [OF l, of "[''n'']" bound_env "''country USA''"]
    declined_replacement [OF l, of "[''n'']" bound_env "''age < 35''"]
    declined_replacement [OF l, of "[''Y'']" bound_env "''country USA''"] l d c
  show ?thesis
    by blast
qed

text \<open>
  In the module as it is written the name \<open>filter_by_column\<close> has no binding: the handler
  reports the NameError and the session is as before, whatever the answer would be.
\<close>

lemma filter_unbound_name:
  assumes "current_df s = Some df" and "shlex_split e args = Inr (c # v # vs)"
    and "c \<in> set (columns df)" and "name_filter_by_column e = None"
  shows "do_filter e s args inp
           = (s, inp, [Failure ''Error filtering dataset: '' (NameError ''filter_by_column'')])"
  using assms by (simp add: do_filter_def)

section \<open>Commands without a dataset\<close>

lemma onecmd_no_dataset:
  assumes "current_df s = None" and "dataset_scoped c"
  shows "onecmd e s inp (c, args) = (s, inp, [no_dataset], False)"
  using assms
  by (cases c)
     (simp_all add: dataset_scoped_def do_head_def do_tail_def do_columns_def do_describe_def
        do_filter_def do_query_def do_save_def do_info_def)

lemma cmdloop_no_dataset:
  assumes "current_df s = None"
  shows "list_all (\<lambda>l. dataset_scoped (fst l)) lines \<Longrightarrow>
           cmdloop e s inp lines = (s, inp, map (\<lambda>l. no_dataset) lines, [])"
proof (induction lines)
  case Nil
  then show ?case by simp
next
  case (Cons l lines)
  obtain c args where l: "l = (c, args)"
    by (cases l)
  then have "onecmd e s inp l = (s, inp, [no_dataset], False)"
    using Cons.prems onecmd_no_dataset [OF assms] by simp
  then show ?case
    using Cons by simp
qed

text \<open>
  C9. For every session without a dataset, each of the commands head, tail, columns,
  describe, filter, query, save and info reports that no dataset is loaded, which is the
  NoDatasetLoaded of the specification; it leaves the session and the pending input as
  they were and does not stop the loop, so that any sequence of such commands is run to
  its end, one report for each.
\<close>

theorem no_dataset_loaded:
  assumes "current_df s = None"
  shows "(dataset_scoped c \<longrightarrow> onecmd e s inp (c, args) = (s, inp, [no_dataset], False))
       \<and> (list_all (\<lambda>l. dataset_scoped (fst l)) lines \<longrightarrow>
            cmdloop e s inp lines = (s, inp, map (\<lambda>l. no_dataset) lines, []))"
  using onecmd_no_dataset [OF assms] cmdloop_no_dataset [OF assms] by blast

theorem no_dataset_loaded_witness:
  "current_df init = None
   \<and> dataset_scoped Head
   \<and> list_all (\<lambda>l. dataset_scoped (fst l))
        [(Head, ''''), (Tail, ''3''), (Columns, ''''), (Describe, ''age''), (Filter, ''country USA''),
         (Query, ''age < 35''), (Save, ''out.csv''), (Info, '''')]
   \<and> onecmd bound_env init [''y''] (Head, '''') = (init, [''y''], [no_dataset], False)
   \<and> cmdloop bound_env init [''y'']
        [(Head, ''''), (Tail, ''3''), (Columns, ''''), (Describe, ''age''), (Filter, ''country USA''),
         (Query, ''age < 35''), (Save, ''out.csv''), (Info, '''')]
       = (init, [''y''],
          [no_dataset, no_dataset, no_dataset, no_dataset, no_dataset, no_dataset, no_dataset,
           no_dataset], [])"
proof -
  have i: "current_df init = None"
    by (simp add: init_def)
  have h: "dataset_scoped Head"
    by (simp add: dataset_scoped_def)
  have a: "list_all (\<lambda>l. dataset_scoped (fst l))
        [(Head, ''''), (Tail, ''3''), (Columns, ''''), (Describe, ''age''), (Filter, ''country USA''),
         (Query, ''age < 35''), (Save, ''out.csv''), (Info, '''')]"
    by (simp add: dataset_scoped_def)
  note t = no_dataset_loaded [OF i, of Head bound_env "[''y'']" "''''"
      "[(Head, ''''), (Tail, ''3''), (Columns, ''''), (Describe, ''age''), (Filter, ''country USA''),
         (Query, ''age < 35''), (Save, ''out.csv''), (Info, '''')]"]
  have o: "onecmd bound_env init [''y''] (Head, '''') = (init, [''y''], [no_dataset], False)"
    using t h by blast
  have "cmdloop bound_env init [''y'']
        [(Head, ''''), (Tail, ''3''), (Columns, ''''), (Describe, ''age''), (Filter, ''country USA''),
         (Query, ''age < 35''), (Save, ''out.csv''), (Info, '''')]
       = (init, [''y''],
          map (\<lambda>l. no_dataset)
            [(Head, ''''), (Tail, ''3''), (Columns, ''''), (Describe, ''age''),
             (Filter, ''country USA''), (Query, ''age < 35''), (Save, ''out.csv''), (Info, '''')],
          [])"
    using t a by blast
  then have "cmdloop bound_env init [''y'']
        [(Head, ''''), (Tail, ''3''), (Columns, ''''), (Describe, ''age''), (Filter, ''country USA''),
         (Query, ''age < 35''), (Save, ''out.csv''), (Info, '''')]
       = (init, [''y''],
          [no_dataset, no_dataset, no_dataset, no_dataset, no_dataset, no_dataset, no_dataset,
           no_dataset], [])"
    by (simp only: list.map)
  then show ?thesis
    using i h a o by blast
qed

section \<open>No division by zero\<close>

lemma dropna_Nil_iff: "dropna xs = [] \<longleftrightarrow> list_all (\<lambda>c. c = NA) xs"
  by (induction xs) (auto simp: dropna_def)

text \<open>
  C10. For every table the distribution, in either mode, returns a mapping and never
  divides by zero: the division is made once for each observed token, and then the
  divisor is positive. For a column whose cells are all missing, and so for a table
  without rows, the mapping is empty.
\<close>

theorem distribution_never_divides_by_zero:
  assumes "sorts_descending srt"
  shows "(\<exists>d. answer_distribution fstr srt df question mc = Inr d)
       \<and> (getitem df question = Some col \<and> list_all (\<lambda>c. c = NA) (cells col)
            \<longrightarrow> answer_distribution fstr srt df question mc = Inr [])"
proof (cases "getitem df question")
  case None
  then show ?thesis
    by (simp add: answer_distribution_def)
next
  case (Some c)
  have e: "\<exists>d. answer_distribution fstr srt df question mc = Inr d"
    using multiple_choice_result [OF assms Some, of fstr] single_choice_result [OF assms Some, of fstr]
    by (cases mc) simp_all
  have n: "answer_distribution fstr srt df question mc = Inr []"
    if "list_all (\<lambda>c. c = NA) (cells c)"
  proof -
    have d: "dropna (cells c) = []"
      using that by (simp add: dropna_Nil_iff)
    then have f: "flat_options fstr c = []"
      by (simp add: flat_options_def)
    have s: "srt [] = []"
      by (simp add: srt_Nil_iff [OF assms])
    show ?thesis
      using multiple_choice_result [OF assms Some, of fstr] single_choice_result [OF assms Some, of fstr]
      by (cases mc) (simp_all add: d f s tally_def)
  qed
  show ?thesis
    using e n Some by auto
qed

theorem distribution_never_divides_by_zero_witness:
  "sorts_descending sort_stable
   \<and> getitem \<lparr>idx = [0, 1], cols = [(''Q'', FloatCol [None, None])]\<rparr> ''Q'' = Some (FloatCol [None, None])
   \<and> list_all (\<lambda>c. c = NA) (cells (FloatCol [None, None]))
   \<and> answer_distribution (\<lambda>r. []) sort_stable
        \<lparr>idx = [0, 1], cols = [(''Q'', FloatCol [None, None])]\<rparr> ''Q'' False = Inr []
   \<and> answer_distribution (\<lambda>r. []) sort_stable
        \<lparr>idx = [0, 1], cols = [(''Q'', FloatCol [None, None])]\<rparr> ''Q'' True = Inr []"
proof -
  have h: "sorts_descending sort_stable"
    by (rule sorts_descending_stable)
  have g: "getitem \<lparr>idx = [0, 1], cols = [(''Q'', FloatCol [None, None])]\<rparr> ''Q'' = Some (FloatCol [None, None])"
    by (simp add: getitem_def)
  have a: "list_all (\<lambda>c. c = NA) (cells (FloatCol [None, None]))"
    by simp
  from distribution_never_divides_by_zero [OF h, of "\<lambda>r. []" _ "''Q''" _ "FloatCol [None, None]"] h g a
  show ?thesis
    by blast
qed

end
